theory Spec2Isabelle
  imports Complex_Main
begin

section \<open>Python values the wrappers rely on\<close>

text \<open>
  The instrument wrappers are Python 3 (\<^verbatim>\<open>input()\<close>, \<^verbatim>\<open>OSError\<close>). A Python string is
  modelled as a \<^typ>\<open>string\<close> of 8-bit characters (code points below 256; the SCPI
  traffic is ASCII), a Python \<^verbatim>\<open>int\<close> as \<^typ>\<open>int\<close>, and every exception that the code lets
  escape as a value of \<open>exn\<close>; \<open>TransportError\<close> stands for whatever the VISA layer raises.
\<close>

datatype exn =
    ValueError | IndexError | KeyError | TypeError | ZeroDivisionError | OverflowError
  | OSError | TransportError

text \<open>\<^verbatim>\<open>str.isspace\<close> on a single character with code point below 256.\<close>

definition isspace :: "char \<Rightarrow> bool" where
  "isspace c =
     (let n = (of_char c :: nat)
      in (9 \<le> n \<and> n \<le> 13) \<or> (28 \<le> n \<and> n \<le> 32) \<or> n = 133 \<or> n = 160)"

text \<open>\<^verbatim>\<open>s.strip()\<close>: leading and trailing whitespace removed.\<close>

definition strip :: "string \<Rightarrow> string" where
  "strip s = rev (dropWhile isspace (rev (dropWhile isspace s)))"

text \<open>\<^verbatim>\<open>s.split(c)\<close> for a one-character separator: never the empty list.\<close>

fun split_on :: "char \<Rightarrow> string \<Rightarrow> string list" where
  "split_on c [] = [[]]"
| "split_on c (x # xs) =
     (if x = c then [] # split_on c xs
      else (case split_on c xs of
              [] \<Rightarrow> [[x]]
            | w # ws \<Rightarrow> (x # w) # ws))"

definition isdigit :: "char \<Rightarrow> bool" where
  "isdigit c = (let n = (of_char c :: nat) in 48 \<le> n \<and> n \<le> 57)"

definition digit_val :: "char \<Rightarrow> nat" where
  "digit_val c = (of_char c :: nat) - 48"

text \<open>
  The digit part of a decimal literal accepted by \<^verbatim>\<open>int(str)\<close>: a digit, then digits
  each optionally preceded by one underscore. The flag tells whether the previous
  character was a digit.
\<close>

fun int_digits :: "bool \<Rightarrow> nat \<Rightarrow> string \<Rightarrow> nat option" where
  "int_digits prev acc [] = (if prev then Some acc else None)"
| "int_digits prev acc (c # cs) =
     (if isdigit c then int_digits True (10 * acc + digit_val c) cs
      else if c = CHR ''_'' \<and> prev then int_digits False acc cs
      else None)"

text \<open>
  The whitespace that \<^verbatim>\<open>int(str)\<close> skips around a literal is narrower than that of
  \<^verbatim>\<open>str.strip\<close>: tab to carriage return, the blank, and the two spaces above ASCII (0x85
  and 0xA0); the separators 0x1C to 0x1F are not skipped and make \<^verbatim>\<open>int\<close> raise.
\<close>

definition int_space :: "char \<Rightarrow> bool" where
  "int_space c =
     (let n = (of_char c :: nat)
      in (9 \<le> n \<and> n \<le> 13) \<or> n = 32 \<or> n = 133 \<or> n = 160)"

definition int_strip :: "string \<Rightarrow> string" where
  "int_strip s = rev (dropWhile int_space (rev (dropWhile int_space s)))"

text \<open>
  The default \<^verbatim>\<open>sys.get_int_max_str_digits()\<close>: a literal with more digits (underscores
  not counted) is refused with \<^verbatim>\<open>ValueError\<close>.
\<close>

definition max_str_digits :: nat where
  "max_str_digits = 4300"

text \<open>
  \<^verbatim>\<open>int(s)\<close> for a string: surrounding whitespace skipped, an optional sign, then the
  digits. \<open>None\<close> stands for the \<^verbatim>\<open>ValueError\<close> that Python raises.
\<close>

definition py_int :: "string \<Rightarrow> int option" where
  "py_int s =
     (if length (filter isdigit s) > max_str_digits then None
      else
        (case int_strip s of
           [] \<Rightarrow> None
         | c # cs \<Rightarrow>
             if c = CHR ''+'' then map_option int (int_digits False 0 cs)
             else if c = CHR ''-'' then map_option (\<lambda>n. - int n) (int_digits False 0 cs)
             else map_option int (int_digits False 0 (c # cs))))"

text \<open>
  A Python number is an \<^verbatim>\<open>int\<close> or a \<^verbatim>\<open>float\<close>. A finite float is given by the real it
  denotes (\<open>PyFloat 0\<close> is \<^verbatim>\<open>0.0\<close>); negative zero, the two infinities and NaN are
  values of their own. Arithmetic and formatting, which round or raise, are parameters of the
  model; comparison is exact in Python, also between an int and a float, and is defined here.
\<close>

datatype pynum = PyInt int | PyFloat real | PyNegZero | PyInf | PyNegInf | PyNaN

fun fin_val :: "pynum \<Rightarrow> real" where
  "fin_val (PyInt i) = of_int i"
| "fin_val (PyFloat x) = x"
| "fin_val _ = 0"

text \<open>\<^verbatim>\<open>a < b\<close> on numbers: false when either is NaN.\<close>

fun py_lt :: "pynum \<Rightarrow> pynum \<Rightarrow> bool" where
  "py_lt PyNaN b = False"
| "py_lt a PyNaN = False"
| "py_lt PyInf b = False"
| "py_lt a PyInf = True"
| "py_lt a PyNegInf = False"
| "py_lt PyNegInf b = True"
| "py_lt a b = (fin_val a < fin_val b)"

text \<open>\<^verbatim>\<open>a == b\<close> on numbers: NaN equals nothing, \<^verbatim>\<open>3 == 3.0\<close> and \<^verbatim>\<open>0.0 == -0.0\<close> hold.\<close>

fun py_eq :: "pynum \<Rightarrow> pynum \<Rightarrow> bool" where
  "py_eq PyNaN b = False"
| "py_eq a PyNaN = False"
| "py_eq PyInf b = (b = PyInf)"
| "py_eq a PyInf = False"
| "py_eq PyNegInf b = (b = PyNegInf)"
| "py_eq a PyNegInf = False"
| "py_eq a b = (fin_val a = fin_val b)"

section \<open>Daq34972.checkList\<close>

text \<open>
  A call prints lines and then either raises or returns; the model gives the printed lines
  and the outcome (\<open>Inl\<close> the exception, \<open>Inr\<close> the returned value).

  \<^verbatim>\<open>
    items = chlist.split(',')
    for item in items:
        item = item.strip()
        if item.find(':') != -1:    #range
            (fromCh, toCh) = item.split(':')
            fromCh = int(fromCh)
            toCh = int(toCh)
            if fromCh > toCh:
                print('Daq34972:checkList() invalid range !')
                return False
            if not (101 <= fromCh <= 399 and 101 <= toCh <= 399):
                print('Daq34972:checkList() invalid channel number !')
                return False
        else:
            chan = int(item)
            if not (101 <= chan <= 440):
                print('Daq34972:checkList() invalid channel number !')
                return False
    return True
  \<close>
  Unpacking \<^verbatim>\<open>item.split(':')\<close> into two names raises \<^verbatim>\<open>ValueError\<close> unless there are
  exactly two parts, and so does \<^verbatim>\<open>int\<close> on a malformed literal; neither is caught.
\<close>

fun checkList_items :: "string list \<Rightarrow> string list \<times> (exn + bool)" where
  "checkList_items [] = ([], Inr True)"
| "checkList_items (item0 # items) =
     (let item = strip item0 in
      if CHR '':'' \<in> set item then
        (case split_on CHR '':'' item of
           [fromS, toS] \<Rightarrow>
             (case py_int fromS of
                None \<Rightarrow> ([], Inl ValueError)
              | Some fromCh \<Rightarrow>
                  (case py_int toS of
                     None \<Rightarrow> ([], Inl ValueError)
                   | Some toCh \<Rightarrow>
                       if fromCh > toCh then
                         ([''Daq34972:checkList() invalid range !''], Inr False)
                       else if \<not> (101 \<le> fromCh \<and> fromCh \<le> 399 \<and> 101 \<le> toCh \<and> toCh \<le> 399) then
                         ([''Daq34972:checkList() invalid channel number !''], Inr False)
                       else checkList_items items))
         | _ \<Rightarrow> ([], Inl ValueError))
      else
        (case py_int item of
           None \<Rightarrow> ([], Inl ValueError)
         | Some chan \<Rightarrow>
             if \<not> (101 \<le> chan \<and> chan \<le> 440) then
               ([''Daq34972:checkList() invalid channel number !''], Inr False)
             else checkList_items items))"

definition checkList :: "string \<Rightarrow> string list \<times> (exn + bool)" where
  "checkList chlist = checkList_items (split_on CHR '','' chlist)"

section \<open>The instrument session as the wrappers see it\<close>

text \<open>
  The VISA handle, the wall clock, true division, \<^verbatim>\<open>str\<close> on a number and \<^verbatim>\<open>float\<close> on a
  string are outside the repository. They are parameters of the model: the outcome of the
  n-th call on the handle (\<open>None\<close> or \<open>Inr\<close> when it returns, an exception when it raises), the
  value of the n-th \<^verbatim>\<open>time.time()\<close>, the quotient \<^verbatim>\<open>a / b\<close> of two numbers (a float, or
  \<^verbatim>\<open>ZeroDivisionError\<close> or \<^verbatim>\<open>OverflowError\<close>), the text \<^verbatim>\<open>str(x)\<close> of a number (different for
  \<^verbatim>\<open>2\<close> and \<^verbatim>\<open>2.0\<close>; \<^verbatim>\<open>ValueError\<close> for an int beyond the digit limit) and the floating-point
  value of a text (\<open>None\<close> for \<^verbatim>\<open>ValueError\<close>). Clock readings and the timeout are reals; the
  type \<open>'f\<close> of parsed floating-point readings is left open.
\<close>

record 'f env =
  write_result :: "nat \<Rightarrow> exn option"
  ask_result :: "nat \<Rightarrow> exn + string"
  clock :: "nat \<Rightarrow> real"
  truediv :: "pynum \<Rightarrow> pynum \<Rightarrow> exn + pynum"
  str_of_num :: "pynum \<Rightarrow> exn + string"
  float_of_str :: "string \<Rightarrow> 'f option"

datatype io = Write string | Ask string

text \<open>
  What a call leaves behind: the calls made on the handle, oldest first, the number of
  clock readings taken, and the lines printed.
\<close>

record world =
  trace :: "io list"
  ticks :: nat
  printed :: "string list"

definition print :: "string \<Rightarrow> world \<Rightarrow> world" where
  "print line w = w\<lparr>printed := printed w @ [line]\<rparr>"

definition prints :: "string list \<Rightarrow> world \<Rightarrow> world" where
  "prints ls w = w\<lparr>printed := printed w @ ls\<rparr>"

definition hwrite :: "'f env \<Rightarrow> string \<Rightarrow> world \<Rightarrow> exn option \<times> world" where
  "hwrite e cmd w = (write_result e (length (trace w)), w\<lparr>trace := trace w @ [Write cmd]\<rparr>)"

definition hask :: "'f env \<Rightarrow> string \<Rightarrow> world \<Rightarrow> (exn + string) \<times> world" where
  "hask e cmd w = (ask_result e (length (trace w)), w\<lparr>trace := trace w @ [Ask cmd]\<rparr>)"

definition now :: "'f env \<Rightarrow> world \<Rightarrow> real \<times> world" where
  "now e w = (clock e (ticks w), w\<lparr>ticks := Suc (ticks w)\<rparr>)"

text \<open>Consecutive \<^verbatim>\<open>handle.write\<close> calls inside one \<^verbatim>\<open>try\<close>: the first that raises ends them.\<close>

fun write_seq :: "'f env \<Rightarrow> string list \<Rightarrow> world \<Rightarrow> exn option \<times> world" where
  "write_seq e [] w = (None, w)"
| "write_seq e (cmd # cmds) w =
     (case hwrite e cmd w of
        (Some x, w1) \<Rightarrow> (Some x, w1)
      | (None, w1) \<Rightarrow> write_seq e cmds w1)"

section \<open>Daq34972.startOverlapped and Dvm34411.startOverlapped\<close>

text \<open>
  \<^verbatim>\<open>
    try:
        self.handle.write(':TRIG:SOUR BUS;')
        cmd = ':SAMP:COUN ' + str(total/period) + ';'
        self.handle.write(cmd)
        self.handle.write(':SAMP:SOUR TIM;')
        cmd = ':SAMP:TIM ' + str(period) + ';'
        self.handle.write(cmd)
        self.handle.write(':INIT:IMM;')
        self.handle.write('*TRG;')
    except Exception:
        print('Exception in Daq34972.startOverlapped() !')
        raise
    return True
  \<close>
  The two classes differ in the printed line only, which is the first argument.
  \<^verbatim>\<open>total/period\<close> (\<open>total_s\<close> below) is Python 3 true division; it and the two \<^verbatim>\<open>str\<close>
  calls sit inside the \<^verbatim>\<open>try\<close>, between the writes, and what they raise is printed and
  raised again like a failing write.
\<close>

definition startOverlapped_body ::
    "string \<Rightarrow> 'f env \<Rightarrow> pynum \<Rightarrow> pynum \<Rightarrow> world \<Rightarrow> (exn + bool) \<times> world" where
  "startOverlapped_body failed e period total_s w =
     (case (case hwrite e '':TRIG:SOUR BUS;'' w of
              (Some x, w1) \<Rightarrow> (Some x, w1)
            | (None, w1) \<Rightarrow>
                (case truediv e total_s period of
                   Inl x \<Rightarrow> (Some x, w1)
                 | Inr q \<Rightarrow>
                     (case str_of_num e q of
                        Inl x \<Rightarrow> (Some x, w1)
                      | Inr count_text \<Rightarrow>
                          (case write_seq e
                                  ['':SAMP:COUN '' @ count_text @ '';'', '':SAMP:SOUR TIM;''] w1 of
                             (Some x, w2) \<Rightarrow> (Some x, w2)
                           | (None, w2) \<Rightarrow>
                               (case str_of_num e period of
                                  Inl x \<Rightarrow> (Some x, w2)
                                | Inr period_text \<Rightarrow>
                                    write_seq e
                                      ['':SAMP:TIM '' @ period_text @ '';'',
                                       '':INIT:IMM;'',
                                       ''*TRG;''] w2))))) of
        (Some x, w') \<Rightarrow> (Inl x, print failed w')
      | (None, w') \<Rightarrow> (Inr True, w'))"

definition Daq34972_startOverlapped ::
    "'f env \<Rightarrow> pynum \<Rightarrow> pynum \<Rightarrow> world \<Rightarrow> (exn + bool) \<times> world" where
  "Daq34972_startOverlapped = startOverlapped_body ''Exception in Daq34972.startOverlapped() !''"

definition Dvm34411_startOverlapped ::
    "'f env \<Rightarrow> pynum \<Rightarrow> pynum \<Rightarrow> world \<Rightarrow> (exn + bool) \<times> world" where
  "Dvm34411_startOverlapped = startOverlapped_body ''Dvm34411.startOverlapped() failed !''"

section \<open>Daq34972.configScan and Dvm34411.config\<close>

text \<open>
  \<^verbatim>\<open>str.upper\<close> on ASCII text, which the function names of both instruments are; letters
  above ASCII, whose upper case can leave the 8-bit range, are left as they are.
\<close>

definition upper_char :: "char \<Rightarrow> char" where
  "upper_char c =
     (let n = (of_char c :: nat) in if 97 \<le> n \<and> n \<le> 122 then char_of (n - 32) else c)"

definition upper :: "string \<Rightarrow> string" where
  "upper s = map upper_char s"

text \<open>An argument that is a string or a number (\<^verbatim>\<open>rng\<close> is \<^verbatim>\<open>'AUTO'\<close> or a range in SI units).\<close>

datatype pyval = PStr string | PNum pynum

text \<open>
  \<^verbatim>\<open>func in list(ranges.keys()) == False\<close> is a chained comparison: Python evaluates
  \<^verbatim>\<open>(func in keys) and (keys == False)\<close>, and a list never equals \<^verbatim>\<open>False\<close>.
\<close>

definition list_eq_False :: "'a list \<Rightarrow> bool" where
  "list_eq_False keys = False"

text \<open>The range dictionary of \<^verbatim>\<open>configScan\<close>; the empty tuple is \<open>None\<close>.\<close>

definition Daq34972_ranges :: "(string \<times> (pynum \<times> pynum) option) list" where
  "Daq34972_ranges =
     [(''CURR:DC'', Some (PyFloat 0.01, PyFloat 1)),
      (''CURR:AC'', Some (PyFloat 0.01, PyFloat 1)),
      (''DIG'', None),
      (''FREQ'', None),
      (''FRES'', Some (PyInt 100, PyFloat 100000000)),
      (''PER'', None),
      (''RES'', Some (PyInt 100, PyFloat 100000000)),
      (''TEMP'', None),
      (''TOT'', None),
      (''VOLT:DC'', Some (PyFloat 0.1, PyFloat 300)),
      (''VOLT:AC'', Some (PyFloat 0.1, PyFloat 300))]"

definition Daq34972_noRange :: "string list" where
  "Daq34972_noRange = [''DIG'', ''FREQ'', ''PER'', ''TEMP'', ''TOT'']"

definition hasNplc :: "string list" where
  "hasNplc = [''VOLT:DC'', ''CURR:DC'', ''RES'', ''FRES'', ''TEMP'']"

text \<open>
  The range step shared by both configuration routines:
  \<^verbatim>\<open>
    if (func in noRange) == False:
        if rng == 'AUTO':
            rng = auto
        else:
            (minR, maxR) = ranges[func]
            if rng < minR or rng > maxR:
                print(... illegal range !)
                return False
        strRng = ' ' + str(rng)
  \<close>
  \<open>Inl\<close> is an escaping exception (\<^verbatim>\<open>KeyError\<close> for a missing key, \<^verbatim>\<open>ValueError\<close> for
  unpacking the empty tuple, \<^verbatim>\<open>TypeError\<close> for comparing a string with a number, or what
  \<^verbatim>\<open>str\<close> raises), \<open>Inr None\<close> the rejected range, \<open>Inr (Some s)\<close> the text \<open>s\<close> for the command
  (empty when the function has no range, where the variable is not used).
\<close>

definition range_step ::
    "(string \<times> (pynum \<times> pynum) option) list \<Rightarrow> string list \<Rightarrow> string \<Rightarrow> 'f env \<Rightarrow> string \<Rightarrow> pyval
       \<Rightarrow> exn + string option" where
  "range_step ranges noRange auto e func rng =
     (if func \<notin> set noRange then
        (if rng = PStr ''AUTO'' then Inr (Some ('' '' @ auto))
         else
           (case map_of ranges func of
              None \<Rightarrow> Inl KeyError
            | Some None \<Rightarrow> Inl ValueError
            | Some (Some (minR, maxR)) \<Rightarrow>
                (case rng of
                   PStr s \<Rightarrow> Inl TypeError
                 | PNum x \<Rightarrow>
                     if py_lt x minR \<or> py_lt maxR x then Inr None
                     else
                       (case str_of_num e x of
                          Inl err \<Rightarrow> Inl err
                        | Inr text \<Rightarrow> Inr (Some ('' '' @ text))))))
      else Inr (Some []))"

text \<open>
  \<^verbatim>\<open>
    try:
        if (func in noRange) == False:
            cmd = 'CONF:' + func + strRng + ',' + scanList
        elif func == 'DIG':
            cmd = 'CONF:DIG:BYTE' + scanList
        else:
            cmd = 'CONF:' + func + ' DEF,' + scanList
        self.handle.write(cmd)
        if (func in hasNplc) == True:
            cmd = func + ':NPLC ' + str(nplc)
            self.handle.write(cmd)
    except Exception:
        print('Exception in Daq34972.configScan() !')
        raise
    return True
  \<close>
\<close>

text \<open>
  \<^verbatim>\<open>cmd = func + ':NPLC ' + str(nplc)\<close> followed by its write, inside a \<^verbatim>\<open>try\<close>: what
  \<^verbatim>\<open>str\<close> raises ends the block like a failing write.
\<close>

definition write_nplc :: "'f env \<Rightarrow> string \<Rightarrow> pynum \<Rightarrow> world \<Rightarrow> exn option \<times> world" where
  "write_nplc e func nplc w =
     (case str_of_num e nplc of
        Inl x \<Rightarrow> (Some x, w)
      | Inr text \<Rightarrow> hwrite e (func @ '':NPLC '' @ text) w)"

definition configScan_send ::
    "'f env \<Rightarrow> string \<Rightarrow> string \<Rightarrow> string \<Rightarrow> pynum \<Rightarrow> world \<Rightarrow> (exn + bool) \<times> world" where
  "configScan_send e func strRng scanList nplc w =
     (let cmd =
        (if func \<notin> set Daq34972_noRange then ''CONF:'' @ func @ strRng @ '','' @ scanList
         else if func = ''DIG'' then ''CONF:DIG:BYTE'' @ scanList
         else ''CONF:'' @ func @ '' DEF,'' @ scanList)
      in case (case hwrite e cmd w of
                 (Some x, w1) \<Rightarrow> (Some x, w1)
               | (None, w1) \<Rightarrow>
                   if func \<in> set hasNplc then write_nplc e func nplc w1 else (None, w1)) of
           (Some x, w') \<Rightarrow> (Inl x, print ''Exception in Daq34972.configScan() !'' w')
         | (None, w') \<Rightarrow> (Inr True, w'))"

text \<open>
  \<^verbatim>\<open>configScan(scanList, func = 'VOLT:DC', rng = 'AUTO', nplc = 1)\<close>, lines 146 to 190:
  the function test, the range step, the NPLC test, the channel list, the commands.
\<close>

definition configScan ::
    "'f env \<Rightarrow> string \<Rightarrow> string \<Rightarrow> pyval \<Rightarrow> pynum \<Rightarrow> world \<Rightarrow> (exn + bool) \<times> world" where
  "configScan e scanList func0 rng nplc w =
     (let func = upper func0 in
      if func \<in> set (map fst Daq34972_ranges) \<and> list_eq_False (map fst Daq34972_ranges) then
        (Inr False, print ''Daq34972.configScan() - illegal function !'' w)
      else
        (case range_step Daq34972_ranges Daq34972_noRange ''AUTO'' e func rng of
           Inl x \<Rightarrow> (Inl x, w)
         | Inr None \<Rightarrow> (Inr False, print ''Daq34972.configScan() illegal range !'' w)
         | Inr (Some strRng) \<Rightarrow>
             if func \<in> set hasNplc \<and> (py_lt nplc (PyFloat 0.02) \<or> py_lt (PyInt 200) nplc) then
               (Inr False, print ''Daq34972.configScan() illegal NPLC !'' w)
             else
               (case checkList scanList of
                  (ls, Inl x) \<Rightarrow> (Inl x, prints ls w)
                | (ls, Inr ok) \<Rightarrow>
                    if ok = False then
                      (Inr False, print ''Daq34972.configScan() illegal scan list !'' (prints ls w))
                    else
                      configScan_send e func strRng (''(@'' @ scanList @ '')'') nplc
                        (prints ls w))))"

text \<open>The range dictionary and the tuples of \<^verbatim>\<open>Dvm34411.config\<close>.\<close>

definition Dvm34411_ranges :: "(string \<times> (pynum \<times> pynum) option) list" where
  "Dvm34411_ranges =
     [(''CAP'', Some (PyFloat (1 / 1000000000), PyFloat (1 / 100000))),
      (''CURR:DC'', Some (PyFloat (1 / 100000), PyFloat 3)),
      (''CURR:AC'', Some (PyFloat (1 / 100000), PyFloat 3)),
      (''FRES'', Some (PyInt 100, PyFloat 1000000000)),
      (''RES'', Some (PyInt 100, PyFloat 1000000000)),
      (''VOLT:DC'', Some (PyFloat 0.1, PyFloat 1000)),
      (''VOLT:AC'', Some (PyFloat 0.1, PyFloat 750)),
      (''FREQ'', None),
      (''PER'', None),
      (''CON'', None),
      (''DIOD'', None),
      (''TEMP'', None)]"

definition Dvm34411_noRange :: "string list" where
  "Dvm34411_noRange = [''CON'', ''DIOD'', ''FREQ'', ''PER'', ''TEMP'']"

text \<open>
  \<^verbatim>\<open>
    try:
        cmd = 'FUNC:ON "' + func + '"'
        self.handle.write(cmd)
        time.sleep(.2)
        if (func in noRange) == False:
            cmd = func + ':RANGE' + rng
            self.handle.write(cmd)
            time.sleep(.2)
        if (func in hasNplc) == True:
            cmd = func + ':NPLC ' + str(nplc)
            self.handle.write(cmd)
        if (func in ('VOLT:DC', 'CURR:DC', 'RES', 'TEMP')) == True:
            cmd = func + ':ZERO:AUTO '
            if aZero: cmd += '1'
            else: cmd += '0'
            self.handle.write(cmd)
    except Exception:
        print('Dvm34411.config() sending configuration failed !')
        raise
    return True
  \<close>
  The settle delays leave no trace in the model.
\<close>

definition config_send ::
    "'f env \<Rightarrow> string \<Rightarrow> string \<Rightarrow> pynum \<Rightarrow> bool \<Rightarrow> world \<Rightarrow> (exn + bool) \<times> world" where
  "config_send e func strRng nplc aZero w =
     (case (case write_seq e
                   ([''FUNC:ON '' @ [CHR 0x22] @ func @ [CHR 0x22]]
                    @ (if func \<notin> set Dvm34411_noRange then [func @ '':RANGE'' @ strRng] else []))
                   w of
              (Some x, w1) \<Rightarrow> (Some x, w1)
            | (None, w1) \<Rightarrow>
                (case (if func \<in> set hasNplc then write_nplc e func nplc w1 else (None, w1)) of
                   (Some x, w2) \<Rightarrow> (Some x, w2)
                 | (None, w2) \<Rightarrow>
                     write_seq e
                       (if func \<in> set [''VOLT:DC'', ''CURR:DC'', ''RES'', ''TEMP'']
                        then [func @ '':ZERO:AUTO '' @ (if aZero then ''1'' else ''0'')] else [])
                       w2)) of
        (Some x, w') \<Rightarrow> (Inl x, print ''Dvm34411.config() sending configuration failed !'' w')
      | (None, w') \<Rightarrow> (Inr True, w'))"

text \<open>\<^verbatim>\<open>config(func = 'VOLT:DC', rng = 'AUTO', nplc = 1, aZero = True)\<close>, lines 89 to 134.\<close>

definition config ::
    "'f env \<Rightarrow> string \<Rightarrow> pyval \<Rightarrow> pynum \<Rightarrow> bool \<Rightarrow> world \<Rightarrow> (exn + bool) \<times> world" where
  "config e func0 rng nplc aZero w =
     (let func = upper func0 in
      if func \<in> set (map fst Dvm34411_ranges) \<and> list_eq_False (map fst Dvm34411_ranges) then
        (Inr False, print ''Dvm34411.config() - illegal function !'' w)
      else
        (case range_step Dvm34411_ranges Dvm34411_noRange '':AUTO'' e func rng of
           Inl x \<Rightarrow> (Inl x, w)
         | Inr None \<Rightarrow> (Inr False, print ''Dvm34411.config() illegal range !'' w)
         | Inr (Some strRng) \<Rightarrow>
             if func \<in> set hasNplc \<and> (py_lt nplc (PyFloat 0.001) \<or> py_lt (PyInt 100) nplc) then
               (Inr False, print ''Dvm34411:config() illegal NPLC !'' w)
             else config_send e func strRng nplc aZero w))"

section \<open>waitOverlappedDone\<close>

text \<open>
  The polling loop, the same text in both classes up to the two printed lines (the first
  two arguments):
  \<^verbatim>\<open>
    while True:
        try:
            measured = self.handle.ask(":DATA:POIN?;")
            measured = measured.strip()
            measured = int(measured)
            if measured == count:
                break;
        except Exception:
            print('Exception in Daq34972.waitOverlappedDone() polling !')
            raise
        if time.time() - startTime > timeout:
            print('Daq34972.waitOverlappedDone() timeout !')
            return False
  \<close>
  The loop has no bound of its own, so the model is a partial function: \<open>None\<close> is a loop
  that never ends. \<open>Inr True\<close> is the \<^verbatim>\<open>break\<close>, \<open>Inr False\<close> the timeout return.
\<close>

partial_function (option) poll_loop ::
    "string \<Rightarrow> string \<Rightarrow> 'f env \<Rightarrow> int \<Rightarrow> real \<Rightarrow> real \<Rightarrow> world
       \<Rightarrow> ((exn + bool) \<times> world) option" where
  "poll_loop failed late e count timeout startTime w =
     (case hask e '':DATA:POIN?;'' w of
        (Inl x, w1) \<Rightarrow> Some (Inl x, print failed w1)
      | (Inr reply, w1) \<Rightarrow>
          (case py_int (strip reply) of
             None \<Rightarrow> Some (Inl ValueError, print failed w1)
           | Some measured \<Rightarrow>
               if measured = count then Some (Inr True, w1)
               else
                 (case now e w1 of
                    (t, w2) \<Rightarrow>
                      if t - startTime > timeout then Some (Inr False, print late w2)
                      else poll_loop failed late e count timeout startTime w2)))"

declare poll_loop.simps [code]

text \<open>
  The header of a definite-length block, as both drain loops read it:
  \<^verbatim>\<open>
    if reading[0] != '#':
        print(... DLB format error - # expected !)
        return False
    digits = int(reading[1])
    reading = reading[2 + digits:]
    ... reading.strip()
  \<close>
  \<open>Inr None\<close> is the format error; indexing past the end raises \<^verbatim>\<open>IndexError\<close>, a
  second character that is no digit raises \<^verbatim>\<open>ValueError\<close>.
\<close>

definition dlb_payload :: "string \<Rightarrow> exn + string option" where
  "dlb_payload reading =
     (case reading of
        [] \<Rightarrow> Inl IndexError
      | c0 # rest \<Rightarrow>
          if c0 \<noteq> CHR ''#'' then Inr None
          else
            (case rest of
               [] \<Rightarrow> Inl IndexError
             | c1 # _ \<Rightarrow>
                 (case py_int [c1] of
                    None \<Rightarrow> Inl ValueError
                  | Some digits \<Rightarrow> Inr (Some (strip (drop (2 + nat digits) reading))))))"

text \<open>What \<^verbatim>\<open>waitOverlappedDone\<close> returns: \<^verbatim>\<open>False\<close> or the list of samples.\<close>

datatype 'a samples = ReturnedFalse | Samples "'a list"

text \<open>
  The drain loop of \<^verbatim>\<open>Daq34972.waitOverlappedDone\<close>, one \<^verbatim>\<open>R? 1;\<close> query per sample:
  \<^verbatim>\<open>
    samples = []
    for i in range(0, count):
        try:
            reading = self.handle.ask('R? 1;')
        except Exception:
            print('Daq34972.Reading results failed !')
            raise;
        (block header)
        reading = reading.strip()
        try:
            rdg = float(reading)
        except Exception:
            print('Daq34972.waitOverlappedDone() Exception in conversion to float !')
            raise
        samples.append(rdg)
    return samples
  \<close>
\<close>

fun Daq34972_drain ::
    "'f env \<Rightarrow> nat \<Rightarrow> 'f list \<Rightarrow> world \<Rightarrow> (exn + 'f samples) \<times> world" where
  "Daq34972_drain e 0 samples w = (Inr (Samples samples), w)"
| "Daq34972_drain e (Suc n) samples w =
     (case hask e ''R? 1;'' w of
        (Inl x, w1) \<Rightarrow> (Inl x, print ''Daq34972.Reading results failed !'' w1)
      | (Inr reading, w1) \<Rightarrow>
          (case dlb_payload reading of
             Inl x \<Rightarrow> (Inl x, w1)
           | Inr None \<Rightarrow> (Inr ReturnedFalse, print ''Daq34972.DLB format error - # expected !'' w1)
           | Inr (Some payload) \<Rightarrow>
               (case float_of_str e payload of
                  None \<Rightarrow>
                    (Inl ValueError,
                     print ''Daq34972.waitOverlappedDone() Exception in conversion to float !'' w1)
                | Some rdg \<Rightarrow> Daq34972_drain e n (samples @ [rdg]) w1)))"

text \<open>
  The drain loop of \<^verbatim>\<open>Dvm34411.waitOverlappedDone\<close>: the same queries and header, then
  \<^verbatim>\<open>samples.append(reading.strip())\<close>, with no conversion.
\<close>

fun Dvm34411_drain ::
    "'f env \<Rightarrow> nat \<Rightarrow> string list \<Rightarrow> world \<Rightarrow> (exn + string samples) \<times> world" where
  "Dvm34411_drain e 0 samples w = (Inr (Samples samples), w)"
| "Dvm34411_drain e (Suc n) samples w =
     (case hask e ''R? 1;'' w of
        (Inl x, w1) \<Rightarrow> (Inl x, print ''Dvm34411.Reading results failed !'' w1)
      | (Inr reading, w1) \<Rightarrow>
          (case dlb_payload reading of
             Inl x \<Rightarrow> (Inl x, w1)
           | Inr None \<Rightarrow> (Inr ReturnedFalse, print ''Dvm34411.DLB format error - # expected !'' w1)
           | Inr (Some payload) \<Rightarrow> Dvm34411_drain e n (samples @ [payload]) w1))"

text \<open>
  \<^verbatim>\<open>waitOverlappedDone(count, timeout)\<close>: read the clock, poll, then drain
  \<^verbatim>\<open>range(0, count)\<close>, which is empty for a count below one.
\<close>

definition Daq34972_waitOverlappedDone ::
    "'f env \<Rightarrow> int \<Rightarrow> real \<Rightarrow> world \<Rightarrow> ((exn + 'f samples) \<times> world) option" where
  "Daq34972_waitOverlappedDone e count timeout w =
     (case now e w of
        (startTime, w0) \<Rightarrow>
          (case poll_loop ''Exception in Daq34972.waitOverlappedDone() polling !''
                  ''Daq34972.waitOverlappedDone() timeout !'' e count timeout startTime w0 of
             None \<Rightarrow> None
           | Some (Inl x, w1) \<Rightarrow> Some (Inl x, w1)
           | Some (Inr reached, w1) \<Rightarrow>
               if reached then Some (Daq34972_drain e (nat count) [] w1)
               else Some (Inr ReturnedFalse, w1)))"

definition Dvm34411_waitOverlappedDone ::
    "'f env \<Rightarrow> int \<Rightarrow> real \<Rightarrow> world \<Rightarrow> ((exn + string samples) \<times> world) option" where
  "Dvm34411_waitOverlappedDone e count timeout w =
     (case now e w of
        (startTime, w0) \<Rightarrow>
          (case poll_loop ''Dvm34411.waitOverlappedDone() polling failed !''
                  ''Dvm34411.waitOverlappedDone() timeout !'' e count timeout startTime w0 of
             None \<Rightarrow> None
           | Some (Inl x, w1) \<Rightarrow> Some (Inl x, w1)
           | Some (Inr reached, w1) \<Rightarrow>
               if reached then Some (Dvm34411_drain e (nat count) [] w1)
               else Some (Inr ReturnedFalse, w1)))"

section \<open>error.py: the error counter and chkLimits\<close>

text \<open>
  \<^verbatim>\<open>
    class Errors:
        def __init__(self):
            self.errorCount = 0
        def bumpError(self):
            self.errorCount += 1
        def getErrorCount(self):
            return self.errorCount
  \<close>
\<close>

record Errors =
  errorCount :: int

definition Errors_init :: Errors where
  "Errors_init = \<lparr>errorCount = 0\<rparr>"

definition bumpError :: "Errors \<Rightarrow> Errors" where
  "bumpError err = err\<lparr>errorCount := errorCount err + 1\<rparr>"

definition getErrorCount :: "Errors \<Rightarrow> int" where
  "getErrorCount err = errorCount err"

text \<open>
  The part of \<^verbatim>\<open>TestLog\<close> that \<^verbatim>\<open>logError\<close> and \<^verbatim>\<open>logText\<close> touch: the lines shown on the
  screen, the lines written to the log file (\<open>logfile\<close>, \<open>None\<close> while \<^verbatim>\<open>self.file\<close> is \<^verbatim>\<open>None\<close>), and
  what \<^verbatim>\<open>self.file.write\<close> raises (\<open>write_error\<close>, \<open>None\<close> when the write succeeds), which the
  medium and the state of the file decide.
  \<^verbatim>\<open>
    def logError(self, line):
        line = '**** Error: ' + line
        print(line)
        if self.file != None:
            line = line + '\n'
            try:
                self.file.write(line)
            except Exception:
                print('Writing to log failed !')
                raise
  \<close>
  \<^verbatim>\<open>logText\<close> is the same without the prefix.
\<close>

record TestLog =
  screen :: "string list"
  logfile :: "string list option"
  write_error :: "exn option"

definition logText :: "string \<Rightarrow> TestLog \<Rightarrow> exn option \<times> TestLog" where
  "logText line lg =
     (let lg1 = lg\<lparr>screen := screen lg @ [line]\<rparr> in
      case logfile lg1 of
        None \<Rightarrow> (None, lg1)
      | Some written \<Rightarrow>
          (case write_error lg1 of
             None \<Rightarrow> (None, lg1\<lparr>logfile := Some (written @ [line @ [CHR 0x0A]])\<rparr>)
           | Some x \<Rightarrow> (Some x, lg1\<lparr>screen := screen lg1 @ [''Writing to log failed !'']\<rparr>)))"

definition logError :: "string \<Rightarrow> TestLog \<Rightarrow> exn option \<times> TestLog" where
  "logError line lg = logText (''**** Error: '' @ line) lg"

text \<open>
  The module globals set by \<^verbatim>\<open>setHandles\<close> that \<^verbatim>\<open>chkLimits\<close> uses, and the conversions of
  the \<^verbatim>\<open>%\<close> operator, which are Python's and parameters here: \<^verbatim>\<open>%F\<close> and \<^verbatim>\<open>%f\<close> on a number
  (\<^verbatim>\<open>OverflowError\<close> on an int beyond the float range), and \<^verbatim>\<open>%X\<close> (\<^verbatim>\<open>TypeError\<close> on a float).
\<close>

record handles =
  Err :: Errors
  Log :: TestLog

record percent =
  fmtF :: "pynum \<Rightarrow> exn + string"
  fmtf :: "pynum \<Rightarrow> exn + string"
  fmtX :: "pynum \<Rightarrow> exn + string"

text \<open>
  \<^verbatim>\<open>
    def chkLimits(name, value, Min, Max, unit = 'V', Hex = False):
        if not Min < value < Max:
            if Hex:
                line = "%s:0x%X OUT OF LIMITS (0x%X, 0x%X). Test Failed !" %(name, value,  Min, Max)
            else:
                line = "%s:%F %s OUT OF LIMITS (%F, %f). Test Failed !" %(name, value, unit, Min, Max)
            Log.logError(line)
            Err.bumpError()
            return False
        if Hex:
            Log.logText('    '+'%s:0x%X expected range from:0x%X To: 0x%X. Test PASS !'% (name, value, Min, Max))
        else:
            Log.logText('    '+'%s:%F %s expected range From:%F %s To: %F %s. Test PASS !'% (name, value, unit, Min,unit, Max, unit))
        return True
  \<close>
  \<^verbatim>\<open>value\<close>, \<^verbatim>\<open>Min\<close> and \<^verbatim>\<open>Max\<close> are numbers, \<open>val\<close>, \<open>lo_lim\<close> and \<open>hi_lim\<close> below. The
  \<^verbatim>\<open>%\<close> operator converts its arguments from left to right and the first conversion that
  raises ends it, before anything is logged or counted.
\<close>

definition convert3 ::
    "(pynum \<Rightarrow> exn + string) \<Rightarrow> (pynum \<Rightarrow> exn + string) \<Rightarrow> (pynum \<Rightarrow> exn + string)
       \<Rightarrow> pynum \<Rightarrow> pynum \<Rightarrow> pynum \<Rightarrow> exn + string \<times> string \<times> string" where
  "convert3 f1 f2 f3 val lo_lim hi_lim =
     (case f1 val of
        Inl x \<Rightarrow> Inl x
      | Inr v \<Rightarrow>
          (case f2 lo_lim of
             Inl x \<Rightarrow> Inl x
           | Inr lo \<Rightarrow>
               (case f3 hi_lim of
                  Inl x \<Rightarrow> Inl x
                | Inr hi \<Rightarrow> Inr (v, lo, hi))))"

definition fail_line ::
    "percent \<Rightarrow> string \<Rightarrow> pynum \<Rightarrow> pynum \<Rightarrow> pynum \<Rightarrow> string \<Rightarrow> bool \<Rightarrow> exn + string" where
  "fail_line p name val lo_lim hi_lim unit Hex =
     (if Hex then
        (case convert3 (fmtX p) (fmtX p) (fmtX p) val lo_lim hi_lim of
           Inl x \<Rightarrow> Inl x
         | Inr (v, lo, hi) \<Rightarrow>
             Inr (name @ '':0x'' @ v @ '' OUT OF LIMITS (0x'' @ lo @ '', 0x'' @ hi
                  @ ''). Test Failed !''))
      else
        (case convert3 (fmtF p) (fmtF p) (fmtf p) val lo_lim hi_lim of
           Inl x \<Rightarrow> Inl x
         | Inr (v, lo, hi) \<Rightarrow>
             Inr (name @ '':'' @ v @ '' '' @ unit @ '' OUT OF LIMITS ('' @ lo @ '', '' @ hi
                  @ ''). Test Failed !'')))"

definition pass_line ::
    "percent \<Rightarrow> string \<Rightarrow> pynum \<Rightarrow> pynum \<Rightarrow> pynum \<Rightarrow> string \<Rightarrow> bool \<Rightarrow> exn + string" where
  "pass_line p name val lo_lim hi_lim unit Hex =
     (if Hex then
        (case convert3 (fmtX p) (fmtX p) (fmtX p) val lo_lim hi_lim of
           Inl x \<Rightarrow> Inl x
         | Inr (v, lo, hi) \<Rightarrow>
             Inr (''    '' @ name @ '':0x'' @ v @ '' expected range from:0x'' @ lo
                  @ '' To: 0x'' @ hi @ ''. Test PASS !''))
      else
        (case convert3 (fmtF p) (fmtF p) (fmtF p) val lo_lim hi_lim of
           Inl x \<Rightarrow> Inl x
         | Inr (v, lo, hi) \<Rightarrow>
             Inr (''    '' @ name @ '':'' @ v @ '' '' @ unit @ '' expected range From:''
                  @ lo @ '' '' @ unit @ '' To: '' @ hi @ '' '' @ unit @ ''. Test PASS !'')))"

definition chkLimits ::
    "percent \<Rightarrow> string \<Rightarrow> pynum \<Rightarrow> pynum \<Rightarrow> pynum \<Rightarrow> string \<Rightarrow> bool \<Rightarrow> handles
       \<Rightarrow> (exn + bool) \<times> handles" where
  "chkLimits p name val lo_lim hi_lim unit Hex g =
     (if \<not> (py_lt lo_lim val \<and> py_lt val hi_lim) then
        (case fail_line p name val lo_lim hi_lim unit Hex of
           Inl x \<Rightarrow> (Inl x, g)
         | Inr line \<Rightarrow>
             (case logError line (Log g) of
                (Some x, lg) \<Rightarrow> (Inl x, g\<lparr>Log := lg\<rparr>)
              | (None, lg) \<Rightarrow> (Inr False, g\<lparr>Log := lg, Err := bumpError (Err g)\<rparr>)))
      else
        (case pass_line p name val lo_lim hi_lim unit Hex of
           Inl x \<Rightarrow> (Inl x, g)
         | Inr line \<Rightarrow>
             (case logText line (Log g) of
                (Some x, lg) \<Rightarrow> (Inl x, g\<lparr>Log := lg\<rparr>)
              | (None, lg) \<Rightarrow> (Inr True, g\<lparr>Log := lg\<rparr>))))"

text \<open>
  The operations of a test run on the shared counter: the two methods of \<^verbatim>\<open>Errors\<close> and
  \<^verbatim>\<open>chkLimits\<close> (which \<^verbatim>\<open>measureAndCheckSwich\<close> and \<^verbatim>\<open>switchAndCheck\<close> call). A run is any
  sequence of them; an operation that raises leaves the state it had reached.
\<close>

datatype run_op =
    BumpError
  | GetErrorCount
  | ChkLimits string pynum pynum pynum string bool

fun run_step :: "percent \<Rightarrow> run_op \<Rightarrow> handles \<Rightarrow> handles" where
  "run_step p BumpError g = g\<lparr>Err := bumpError (Err g)\<rparr>"
| "run_step p GetErrorCount g = g"
| "run_step p (ChkLimits name val lo_lim hi_lim unit Hex) g = snd (chkLimits p name val lo_lim hi_lim unit Hex g)"

fun run :: "percent \<Rightarrow> run_op list \<Rightarrow> handles \<Rightarrow> handles" where
  "run p [] g = g"
| "run p (x # xs) g = run p xs (run_step p x g)"

text \<open>
  A simulated session for concrete evaluations, in the manner of \<^verbatim>\<open>visasim.py\<close>: every write
  is accepted, the first \<open>k\<close> queries answer 3, the next answers 2, every later query answers
  a block carrying \<^verbatim>\<open>+1.234\<close> (\<open>k\<close> is 2 in \<open>sim\<close>), and the clock advances one second per
  reading. Its arithmetic is that of Python on the few numbers used: a zero divisor raises,
  the quotients 5/2, 4/2 and 5/(-1) are exact, and \<^verbatim>\<open>str\<close> and \<^verbatim>\<open>float\<close> know the texts listed.
\<close>

definition sim_after :: "nat \<Rightarrow> rat env" where
  "sim_after k =
     \<lparr>write_result = (\<lambda>n. None),
      ask_result =
        (\<lambda>n. if n < k then Inr (''3'' @ [CHR 0x0A]) else if n = k then Inr ''2''
              else Inr (''#15+1.234'' @ [CHR 0x0A])),
      clock = (\<lambda>n. real n),
      truediv = (\<lambda>a b. if fin_val b = 0 then Inl ZeroDivisionError
                        else Inr (PyFloat (fin_val a / fin_val b))),
      str_of_num =
        (\<lambda>x. if x = PyFloat (5 / 2) then Inr ''2.5''
              else if x = PyFloat 2 then Inr ''2.0''
              else if x = PyInt 2 then Inr ''2''
              else if x = PyFloat (- 5) then Inr ''-5.0''
              else if x = PyInt (- 1) then Inr ''-1''
              else if x = PyInt 0 then Inr ''0''
              else if x = PyInt 1 then Inr ''1''
              else Inr ''?''),
      float_of_str = (\<lambda>s. if s = ''+1.234'' then Some (1234 / 1000) else None)\<rparr>"

definition sim :: "rat env" where
  "sim = sim_after 2"

text \<open>The same session with every query answered by one given reply.\<close>

definition sim_reply :: "string \<Rightarrow> rat env" where
  "sim_reply reply = sim\<lparr>ask_result := (\<lambda>n. Inr reply)\<rparr>"

definition w0 :: world where
  "w0 = \<lparr>trace = [], ticks = 0, printed = []\<rparr>"

text \<open>
  The conversions of the simulated run: \<^verbatim>\<open>%F\<close> and \<^verbatim>\<open>%f\<close> give six decimals on the numbers
  used, and \<^verbatim>\<open>%X\<close> is asked of floats only.
\<close>

definition sim_fixed :: "pynum \<Rightarrow> exn + string" where
  "sim_fixed x =
     (if x = PyFloat 3 then Inr ''3.000000''
      else if x = PyFloat 3.3 then Inr ''3.300000''
      else if x = PyFloat 3.6 then Inr ''3.600000''
      else if x = PyFloat 3.9 then Inr ''3.900000''
      else if x = PyInt 0 then Inr ''0.000000''
      else if x = PyInt 1 then Inr ''1.000000''
      else if x = PyInt 2 then Inr ''2.000000''
      else if x = PyInt 5 then Inr ''5.000000''
      else Inl OverflowError)"

definition sim_percent :: percent where
  "sim_percent = \<lparr>fmtF = sim_fixed, fmtf = sim_fixed, fmtX = (\<lambda>x. Inl TypeError)\<rparr>"

definition g0 :: handles where
  "g0 = \<lparr>Err = Errors_init, Log = \<lparr>screen = [], logfile = Some [], write_error = None\<rparr>\<rparr>"

section \<open>Channel-list validation: lemmas and claims\<close>

lemma split_on_no_sep: "c \<notin> set s \<Longrightarrow> split_on c s = [s]"
  by (induction s) auto

lemma split_on_two_has_sep: "split_on c s = [f, t] \<Longrightarrow> c \<in> set s"
  using split_on_no_sep [of c s] by auto

lemma checkList_items_accepted:
  "snd (checkList_items pre) = Inr True \<Longrightarrow> checkList_items (pre @ rest) = checkList_items rest"
proof (induction pre)
  case Nil
  then show ?case by simp
next
  case (Cons item0 pre)
  then show ?case
    by (auto simp: Let_def split: if_splits list.splits option.splits)
qed

lemma checkList_items_range:
  assumes "split_on CHR '':'' (strip item) = [f, t]"
    and "py_int f = Some a" and "py_int t = Some b"
  shows "checkList_items (item # post) =
     (if a > b then ([''Daq34972:checkList() invalid range !''], Inr False)
      else if \<not> (101 \<le> a \<and> a \<le> 399 \<and> 101 \<le> b \<and> b \<le> 399) then
        ([''Daq34972:checkList() invalid channel number !''], Inr False)
      else checkList_items post)"
  using assms split_on_two_has_sep [OF assms(1)] by (simp add: Let_def)

lemma checkList_items_single:
  assumes "CHR '':'' \<notin> set (strip item)" and "py_int (strip item) = Some n"
  shows "checkList_items (item # post) =
     (if \<not> (101 \<le> n \<and> n \<le> 440) then
        ([''Daq34972:checkList() invalid channel number !''], Inr False)
      else checkList_items post)"
  using assms by (simp add: Let_def)

text \<open>
  Claim C6. Whenever the first item of a channel list that is not accepted is a range item
  \<open>from:to\<close> with \<open>from > to\<close>, \<^verbatim>\<open>checkList\<close> prints the range-order message and returns
  \<^verbatim>\<open>False\<close>, whatever the two endpoints are: the order test comes before the endpoint test.
\<close>

theorem checkList_range_order:
  assumes "split_on CHR '','' chlist = pre @ item # post"
    and "snd (checkList_items pre) = Inr True"
    and "split_on CHR '':'' (strip item) = [f, t]"
    and "py_int f = Some a" and "py_int t = Some b" and "a > b"
  shows "checkList chlist = ([''Daq34972:checkList() invalid range !''], Inr False)"
  using assms by (simp add: checkList_def checkList_items_accepted checkList_items_range
      del: checkList_items.simps)

text \<open>The endpoints 500 and 1 are both outside every bank, and the item after is malformed.\<close>

theorem checkList_range_order_witness:
  "checkList ''101,500:1,abc'' = ([''Daq34972:checkList() invalid range !''], Inr False)"
proof -
  have items: "split_on CHR '','' ''101,500:1,abc'' = [''101''] @ ''500:1'' # [''abc'']"
    by code_simp
  have before: "snd (checkList_items [''101'']) = Inr True"
    by code_simp
  have parts: "split_on CHR '':'' (strip ''500:1'') = [''500'', ''1'']"
    by code_simp
  have from_ch: "py_int ''500'' = Some 500" and to_ch: "py_int ''1'' = Some 1"
    by code_simp+
  have order: "(500::int) > 1"
    by simp
  show ?thesis
    by (rule checkList_range_order [OF items before parts from_ch to_ch order])
qed

text \<open>
  Claim C8. In \<^verbatim>\<open>Daq34972.checkList\<close> a singleton item is accepted exactly when it lies in
  101..440, while an ordered range item is accepted exactly when both endpoints lie in
  101..399; channel 405 is accepted as a singleton and rejected as a range endpoint.
\<close>

theorem checkList_bounds:
  "(CHR '','' \<notin> set item \<and> CHR '':'' \<notin> set (strip item) \<and> py_int (strip item) = Some n
      \<longrightarrow> (snd (checkList item) = Inr True) = (101 \<le> n \<and> n \<le> 440))
   \<and> (CHR '','' \<notin> set item \<and> split_on CHR '':'' (strip item) = [f, t]
        \<and> py_int f = Some a \<and> py_int t = Some b \<and> a \<le> b
      \<longrightarrow> (snd (checkList item) = Inr True) = (101 \<le> a \<and> a \<le> 399 \<and> 101 \<le> b \<and> b \<le> 399))
   \<and> checkList ''405'' = ([], Inr True)
   \<and> checkList ''405:405'' = ([''Daq34972:checkList() invalid channel number !''], Inr False)"
proof (intro conjI impI)
  assume "CHR '','' \<notin> set item \<and> CHR '':'' \<notin> set (strip item) \<and> py_int (strip item) = Some n"
  then show "(snd (checkList item) = Inr True) = (101 \<le> n \<and> n \<le> 440)"
    by (simp add: checkList_def split_on_no_sep checkList_items_single del: checkList_items.simps(2))
next
  assume "CHR '','' \<notin> set item \<and> split_on CHR '':'' (strip item) = [f, t]
        \<and> py_int f = Some a \<and> py_int t = Some b \<and> a \<le> b"
  then show "(snd (checkList item) = Inr True) = (101 \<le> a \<and> a \<le> 399 \<and> 101 \<le> b \<and> b \<le> 399)"
    by (simp add: checkList_def split_on_no_sep checkList_items_range del: checkList_items.simps(2))
next
  show "checkList ''405'' = ([], Inr True)" by code_simp
next
  show "checkList ''405:405'' = ([''Daq34972:checkList() invalid channel number !''], Inr False)"
    by code_simp
qed

text \<open>The four boundaries, each at a concrete list.\<close>

theorem checkList_bounds_witness:
  "snd (checkList ''440'') = Inr True \<and> snd (checkList ''441'') \<noteq> Inr True
   \<and> snd (checkList ''101:399'') = Inr True \<and> snd (checkList ''399:400'') \<noteq> Inr True"
proof -
  have single: "CHR '','' \<notin> set ''440'' \<and> CHR '':'' \<notin> set (strip ''440'')
                  \<and> py_int (strip ''440'') = Some 440"
    "CHR '','' \<notin> set ''441'' \<and> CHR '':'' \<notin> set (strip ''441'')
                  \<and> py_int (strip ''441'') = Some 441"
    by code_simp+
  have range: "CHR '','' \<notin> set ''101:399'' \<and> split_on CHR '':'' (strip ''101:399'') = [''101'', ''399'']
                  \<and> py_int ''101'' = Some 101 \<and> py_int ''399'' = Some 399 \<and> (101::int) \<le> 399"
    "CHR '','' \<notin> set ''399:400'' \<and> split_on CHR '':'' (strip ''399:400'') = [''399'', ''400'']
                  \<and> py_int ''399'' = Some 399 \<and> py_int ''400'' = Some 400 \<and> (399::int) \<le> 400"
    by code_simp+
  show ?thesis
    using checkList_bounds [of "''440''" 440 "''0''" "''0''" 0 0] single(1)
      checkList_bounds [of "''441''" 441 "''0''" "''0''" 0 0] single(2)
      checkList_bounds [of "''101:399''" 0 "''101''" "''399''" 101 399] range(1)
      checkList_bounds [of "''399:400''" 0 "''399''" "''400''" 399 400] range(2)
    by simp
qed

text \<open>
  Claim C5. The claim asks for a returned validation failure on a malformed item; the code
  lets the \<^verbatim>\<open>ValueError\<close> of \<^verbatim>\<open>int\<close> (or of the tuple unpacking) escape instead, although
  the docstring promises \<^verbatim>\<open>False if scan list syntax error\<close>. The evaluation below shows the
  exception at five malformed lists.
\<close>

theorem checkList_malformed_raises:
  "checkList ''abc'' = ([], Inl ValueError)
   \<and> checkList ''101,2x'' = ([], Inl ValueError)
   \<and> checkList ''101:'' = ([], Inl ValueError)
   \<and> checkList ''1:2:3'' = ([], Inl ValueError)
   \<and> checkList '''' = ([], Inl ValueError)"
  by code_simp

text \<open>
  The information separators 0x1C to 0x1F are stripped from an item but not skipped by
  \<^verbatim>\<open>int\<close>: next to the colon they make \<^verbatim>\<open>checkList\<close> raise.
\<close>

lemma checkList_separator_raises:
  "checkList (''300:'' @ [CHR 0x1C] @ ''200'') = ([], Inl ValueError)
   \<and> checkList (''101:'' @ [CHR 0x1C] @ ''102'') = ([], Inl ValueError)"
  by code_simp

section \<open>Block decoding: claims\<close>

lemma py_int_digit: "isdigit c \<Longrightarrow> py_int [c] = Some (int (digit_val c))"
  by (auto simp: py_int_def int_strip_def int_space_def isdigit_def max_str_digits_def Let_def)

text \<open>
  Claim C1, as the code has it. For every reply that starts with \<open>#\<close> and a decimal digit
  \<open>d\<close>, the block decoder drops the \<open>d\<close> characters after the digit without reading them as
  a length and takes all the remaining characters, stripped of surrounding whitespace, as the
  payload; no declared length is compared with the bytes that follow.
\<close>

theorem dlb_payload_skips_header:
  "isdigit c \<Longrightarrow>
     dlb_payload (CHR ''#'' # c # rest) = Inr (Some (strip (drop (digit_val c) rest)))"
  by (simp add: dlb_payload_def py_int_digit)

text \<open>The block \<^verbatim>\<open>#15+1.234\<close> followed by a blank.\<close>

theorem dlb_payload_skips_header_witness:
  "dlb_payload ''#15+1.234 '' = Inr (Some ''+1.234'')"
proof -
  have digit: "isdigit CHR ''1''"
    by code_simp
  have rest: "strip (drop (digit_val CHR ''1'') ''5+1.234 '') = ''+1.234''"
    by code_simp
  show ?thesis
    using dlb_payload_skips_header [OF digit, of "''5+1.234 ''"] rest by simp
qed

text \<open>
  Claim C1 as stated fails: a block that declares 91 bytes and carries 8 is decoded, a
  length field that is no number is skipped, and a payload longer than the declared 2 bytes
  is taken whole; the drain loop turns such a reply into a sample.
\<close>

theorem dlb_length_ignored:
  "dlb_payload ''#29111111111'' = Inr (Some ''11111111'')
   \<and> dlb_payload ''#2xx+1.5'' = Inr (Some ''+1.5'')
   \<and> dlb_payload ''#12+1.234'' = Inr (Some ''+1.234'')
   \<and> fst (Daq34972_drain (sim_reply ''#291+1.234'') 1 [] w0) = Inr (Samples [1234 / 1000])"
  by code_simp

section \<open>Arming and configuration: lemmas and claims\<close>

lemma write_seq_accepted:
  "(\<forall>i<length cmds. write_result e (length (trace w) + i) = None) \<Longrightarrow>
     write_seq e cmds w = (None, w\<lparr>trace := trace w @ map Write cmds\<rparr>)"
proof (induction cmds arbitrary: w)
  case Nil
  then show ?case by simp
next
  case (Cons cmd cmds)
  have first: "write_result e (length (trace w)) = None"
    using Cons.prems by force
  have rest: "\<forall>i<length cmds. write_result e (length (trace (w\<lparr>trace := trace w @ [Write cmd]\<rparr>)) + i) = None"
    using Cons.prems by force
  show ?case
    using first Cons.IH [OF rest] by (simp add: hwrite_def)
qed

lemma startOverlapped_body_accepted:
  assumes "truediv e total_s period = Inr q"
    and "str_of_num e q = Inr count_text"
    and "str_of_num e period = Inr period_text"
    and "\<forall>i<6. write_result e (length (trace w) + i) = None"
  shows "startOverlapped_body failed e period total_s w =
           (Inr True,
            w\<lparr>trace := trace w @
               [Write '':TRIG:SOUR BUS;'',
                Write ('':SAMP:COUN '' @ count_text @ '';''),
                Write '':SAMP:SOUR TIM;'',
                Write ('':SAMP:TIM '' @ period_text @ '';''),
                Write '':INIT:IMM;'',
                Write ''*TRG;'']\<rparr>)"
proof -
  define cmds1 where "cmds1 = ['':SAMP:COUN '' @ count_text @ '';'', '':SAMP:SOUR TIM;'']"
  define cmds2 where "cmds2 = ['':SAMP:TIM '' @ period_text @ '';'', '':INIT:IMM;'', ''*TRG;'']"
  define w1 where "w1 = w\<lparr>trace := trace w @ [Write '':TRIG:SOUR BUS;'']\<rparr>"
  define w2 where "w2 = w1\<lparr>trace := trace w1 @ map Write cmds1\<rparr>"
  have accepted: "write_result e (length (trace w) + i) = None" if "i < 6" for i
    using assms(4) that by blast
  have first: "write_result e (length (trace w)) = None"
    using accepted [of 0] by simp
  have "\<forall>i<length cmds1. write_result e (length (trace w1) + i) = None"
  proof (intro allI impI)
    fix i :: nat
    assume "i < length cmds1"
    then have "Suc i < 6" by (simp add: cmds1_def)
    then have "write_result e (length (trace w) + Suc i) = None"
      by (rule accepted)
    then show "write_result e (length (trace w1) + i) = None"
      by (simp add: w1_def)
  qed
  then have seq1: "write_seq e cmds1 w1 = (None, w2)"
    unfolding w2_def by (rule write_seq_accepted)
  have "\<forall>i<length cmds2. write_result e (length (trace w2) + i) = None"
  proof (intro allI impI)
    fix i :: nat
    assume "i < length cmds2"
    then have "Suc (Suc (Suc i)) < 6" by (simp add: cmds2_def)
    then have "write_result e (length (trace w) + Suc (Suc (Suc i))) = None"
      by (rule accepted)
    then show "write_result e (length (trace w2) + i) = None"
      by (simp add: w2_def w1_def cmds1_def)
  qed
  then have seq2: "write_seq e cmds2 w2 = (None, w2\<lparr>trace := trace w2 @ map Write cmds2\<rparr>)"
    by (rule write_seq_accepted)
  show ?thesis
    using first seq1 [unfolded cmds1_def w1_def w2_def]
      seq2 [unfolded cmds1_def cmds2_def w1_def w2_def]
    by (simp add: startOverlapped_body_def hwrite_def assms(1,2,3) cmds1_def
        del: write_seq.simps)
qed

lemma startOverlapped_body_no_quotient:
  assumes "truediv e total_s period = Inl x"
    and "write_result e (length (trace w)) = None"
  shows "startOverlapped_body failed e period total_s w =
           (Inl x,
            w\<lparr>trace := trace w @ [Write '':TRIG:SOUR BUS;''],
               printed := printed w @ [failed]\<rparr>)"
  using assms by (simp add: startOverlapped_body_def hwrite_def print_def)

text \<open>
  Claim C2, as the code has it. \<^verbatim>\<open>startOverlapped\<close> tests neither argument. For every
  period and total, of either sign, whose quotient \<^verbatim>\<open>total/period\<close> Python computes, on a
  handle that accepts the six writes it arms the instrument with the text of the quotient
  as the sample count (not rounded up), the text of the period, \<^verbatim>\<open>:INIT:IMM;\<close> and \<^verbatim>\<open>*TRG;\<close>,
  and returns \<^verbatim>\<open>True\<close>. When the division raises (a zero period, a quotient beyond the
  float range), the exception leaves the call after the first command has been written.
  Both classes do the same, up to the printed line.
\<close>

theorem startOverlapped_arms_unchecked:
  "(truediv e total_s period = Inr q \<and> str_of_num e q = Inr count_text
      \<and> str_of_num e period = Inr period_text
      \<and> (\<forall>i<6. write_result e (length (trace w) + i) = None)
     \<longrightarrow> Daq34972_startOverlapped e period total_s w =
           (Inr True,
            w\<lparr>trace := trace w @
               [Write '':TRIG:SOUR BUS;'',
                Write ('':SAMP:COUN '' @ count_text @ '';''),
                Write '':SAMP:SOUR TIM;'',
                Write ('':SAMP:TIM '' @ period_text @ '';''),
                Write '':INIT:IMM;'',
                Write ''*TRG;'']\<rparr>)
         \<and> Dvm34411_startOverlapped e period total_s w =
             Daq34972_startOverlapped e period total_s w)
   \<and> (truediv e total_s period = Inl x \<and> write_result e (length (trace w)) = None
     \<longrightarrow> Daq34972_startOverlapped e period total_s w =
           (Inl x,
            w\<lparr>trace := trace w @ [Write '':TRIG:SOUR BUS;''],
               printed := printed w @ [''Exception in Daq34972.startOverlapped() !'']\<rparr>)
         \<and> Dvm34411_startOverlapped e period total_s w =
           (Inl x,
            w\<lparr>trace := trace w @ [Write '':TRIG:SOUR BUS;''],
               printed := printed w @ [''Dvm34411.startOverlapped() failed !'']\<rparr>))"
proof (intro conjI impI)
  assume h: "truediv e total_s period = Inr q \<and> str_of_num e q = Inr count_text
      \<and> str_of_num e period = Inr period_text
      \<and> (\<forall>i<6. write_result e (length (trace w) + i) = None)"
  then have q: "truediv e total_s period = Inr q" and c: "str_of_num e q = Inr count_text"
    and p: "str_of_num e period = Inr period_text"
    and ws: "\<forall>i<6. write_result e (length (trace w) + i) = None"
    by blast+
  show "Daq34972_startOverlapped e period total_s w =
           (Inr True,
            w\<lparr>trace := trace w @
               [Write '':TRIG:SOUR BUS;'',
                Write ('':SAMP:COUN '' @ count_text @ '';''),
                Write '':SAMP:SOUR TIM;'',
                Write ('':SAMP:TIM '' @ period_text @ '';''),
                Write '':INIT:IMM;'',
                Write ''*TRG;'']\<rparr>)"
    unfolding Daq34972_startOverlapped_def by (rule startOverlapped_body_accepted [OF q c p ws])
  show "Dvm34411_startOverlapped e period total_s w = Daq34972_startOverlapped e period total_s w"
    unfolding Daq34972_startOverlapped_def Dvm34411_startOverlapped_def
    by (simp only: startOverlapped_body_accepted [OF q c p ws])
next
  assume h: "truediv e total_s period = Inl x \<and> write_result e (length (trace w)) = None"
  then have q: "truediv e total_s period = Inl x" and w1: "write_result e (length (trace w)) = None"
    by blast+
  show "Daq34972_startOverlapped e period total_s w =
           (Inl x,
            w\<lparr>trace := trace w @ [Write '':TRIG:SOUR BUS;''],
               printed := printed w @ [''Exception in Daq34972.startOverlapped() !'']\<rparr>)"
    unfolding Daq34972_startOverlapped_def by (rule startOverlapped_body_no_quotient [OF q w1])
  show "Dvm34411_startOverlapped e period total_s w =
           (Inl x,
            w\<lparr>trace := trace w @ [Write '':TRIG:SOUR BUS;''],
               printed := printed w @ [''Dvm34411.startOverlapped() failed !'']\<rparr>)"
    unfolding Dvm34411_startOverlapped_def by (rule startOverlapped_body_no_quotient [OF q w1])
qed

text \<open>
  A period of 2 s over 4 s, both ints: the count sent is the float \<^verbatim>\<open>2.0\<close>, the period the
  int \<^verbatim>\<open>2\<close>. A period of zero: \<^verbatim>\<open>ZeroDivisionError\<close> after the first write.
\<close>

theorem startOverlapped_arms_unchecked_witness:
  "Daq34972_startOverlapped sim (PyInt 2) (PyInt 4) w0 =
     (Inr True,
      w0\<lparr>trace :=
           [Write '':TRIG:SOUR BUS;'', Write '':SAMP:COUN 2.0;'', Write '':SAMP:SOUR TIM;'',
            Write '':SAMP:TIM 2;'', Write '':INIT:IMM;'', Write ''*TRG;'']\<rparr>)
   \<and> Dvm34411_startOverlapped sim (PyInt 0) (PyInt 5) w0 =
     (Inl ZeroDivisionError,
      w0\<lparr>trace := [Write '':TRIG:SOUR BUS;''],
          printed := [''Dvm34411.startOverlapped() failed !'']\<rparr>)"
proof -
  have q: "truediv sim (PyInt 4) (PyInt 2) = Inr (PyFloat 2)"
    by (simp add: sim_def sim_after_def)
  have c: "str_of_num sim (PyFloat 2) = Inr ''2.0''"
    by (simp add: sim_def sim_after_def)
  have p: "str_of_num sim (PyInt 2) = Inr ''2''"
    by (simp add: sim_def sim_after_def)
  have ws: "\<forall>i<6. write_result sim (length (trace w0) + i) = None"
    by (simp add: sim_def sim_after_def)
  have z: "truediv sim (PyInt 5) (PyInt 0) = Inl ZeroDivisionError"
    by (simp add: sim_def sim_after_def)
  have w1: "write_result sim (length (trace w0)) = None"
    by (simp add: sim_def sim_after_def)
  have armed: "Daq34972_startOverlapped sim (PyInt 2) (PyInt 4) w0 =
     (Inr True,
      w0\<lparr>trace :=
           [Write '':TRIG:SOUR BUS;'', Write '':SAMP:COUN 2.0;'', Write '':SAMP:SOUR TIM;'',
            Write '':SAMP:TIM 2;'', Write '':INIT:IMM;'', Write ''*TRG;'']\<rparr>)"
    using startOverlapped_arms_unchecked
      [where e = sim and total_s = "PyInt 4" and period = "PyInt 2" and q = "PyFloat 2"
         and count_text = "''2.0''" and period_text = "''2''" and w = w0,
       THEN conjunct1, THEN mp, THEN conjunct1] q c p ws
    by (simp add: w0_def)
  have raised: "Dvm34411_startOverlapped sim (PyInt 0) (PyInt 5) w0 =
     (Inl ZeroDivisionError,
      w0\<lparr>trace := [Write '':TRIG:SOUR BUS;''],
          printed := [''Dvm34411.startOverlapped() failed !'']\<rparr>)"
    using startOverlapped_arms_unchecked
      [where e = sim and total_s = "PyInt 5" and period = "PyInt 0" and x = ZeroDivisionError
         and w = w0, THEN conjunct2, THEN mp, THEN conjunct2] z w1
    by (simp add: w0_def)
  show ?thesis
    using armed raised by (rule conjI)
qed

text \<open>
  Claim C2 as stated fails: a negative period arms the instrument and returns \<^verbatim>\<open>True\<close>; the
  count sent for 5 s at 2 s is 2.5, not 3; a zero period raises \<^verbatim>\<open>ZeroDivisionError\<close> after
  the first command has been written.
\<close>

theorem startOverlapped_no_timing_check:
  "Daq34972_startOverlapped sim (PyInt (- 1)) (PyInt 5) w0 =
     (Inr True,
      w0\<lparr>trace :=
           [Write '':TRIG:SOUR BUS;'', Write '':SAMP:COUN -5.0;'', Write '':SAMP:SOUR TIM;'',
            Write '':SAMP:TIM -1;'', Write '':INIT:IMM;'', Write ''*TRG;'']\<rparr>)
   \<and> fst (Daq34972_startOverlapped sim (PyInt 2) (PyInt 5) w0) = Inr True
   \<and> trace (snd (Daq34972_startOverlapped sim (PyInt 2) (PyInt 5) w0)) ! 1
       = Write '':SAMP:COUN 2.5;''
   \<and> Daq34972_startOverlapped sim (PyInt 0) (PyInt 5) w0 =
       (Inl ZeroDivisionError,
        w0\<lparr>trace := [Write '':TRIG:SOUR BUS;''],
            printed := [''Exception in Daq34972.startOverlapped() !'']\<rparr>)"
  by (simp add: Daq34972_startOverlapped_def startOverlapped_body_def hwrite_def sim_def
      sim_after_def w0_def print_def)

text \<open>
  Claim C3. The claim asks for a rejected unknown function before any command is sent. The
  test \<^verbatim>\<open>func in list(ranges.keys()) == False\<close> is a chained comparison that is never true,
  so the branch that prints \<^verbatim>\<open>illegal function\<close> and returns \<^verbatim>\<open>False\<close> is dead: with the
  default range, \<^verbatim>\<open>configScan('101', 'foo')\<close> and \<^verbatim>\<open>config('foo')\<close> send commands naming
  the unknown function and return \<^verbatim>\<open>True\<close>.
\<close>

theorem configScan_unknown_function_sent:
  "configScan sim ''101'' ''foo'' (PStr ''AUTO'') (PyInt 1) w0 =
     (Inr True, w0\<lparr>trace := [Write ''CONF:FOO AUTO,(@101)'']\<rparr>)
   \<and> config sim ''foo'' (PStr ''AUTO'') (PyInt 1) True w0 =
     (Inr True, w0\<lparr>trace := [Write (''FUNC:ON '' @ [CHR 0x22] @ ''FOO'' @ [CHR 0x22]),
                              Write ''FOO:RANGE :AUTO'']\<rparr>)"
  by code_simp

section \<open>Limit checking: lemmas and claims\<close>

lemma py_lt_asym: "py_lt a b \<Longrightarrow> \<not> py_lt b a"
  by (cases a; cases b) auto

lemma py_eq_not_lt: "py_eq a b \<Longrightarrow> \<not> py_lt a b \<and> \<not> py_lt b a"
  by (cases a; cases b) auto

lemma logText_ok:
  "logfile lg = None \<or> write_error lg = None \<Longrightarrow> \<exists>lg'. logText line lg = (None, lg')"
  by (cases "logfile lg") (auto simp: logText_def Let_def)

lemma chkLimits_inside:
  assumes "py_lt lo_lim val" and "py_lt val hi_lim"
    and "logfile (Log g) = None \<or> write_error (Log g) = None"
    and "fmtF p val = Inr v" and "fmtF p lo_lim = Inr lo" and "fmtF p hi_lim = Inr hi"
  shows "fst (chkLimits p name val lo_lim hi_lim unit False g) = Inr True
         \<and> Err (snd (chkLimits p name val lo_lim hi_lim unit False g)) = Err g"
proof -
  obtain line where line: "pass_line p name val lo_lim hi_lim unit False = Inr line"
    by (simp add: pass_line_def convert3_def assms(4,5,6))
  obtain lg' where lg': "logText line (Log g) = (None, lg')"
    using logText_ok [OF assms(3)] by blast
  show ?thesis
    using assms(1,2) by (simp add: chkLimits_def line lg')
qed

lemma chkLimits_outside:
  assumes "\<not> (py_lt lo_lim val \<and> py_lt val hi_lim)"
    and "logfile (Log g) = None \<or> write_error (Log g) = None"
    and "fmtF p val = Inr v" and "fmtF p lo_lim = Inr lo" and "fmtf p hi_lim = Inr hi"
  shows "fst (chkLimits p name val lo_lim hi_lim unit False g) = Inr False
         \<and> errorCount (Err (snd (chkLimits p name val lo_lim hi_lim unit False g)))
             = errorCount (Err g) + 1"
proof -
  obtain line where line: "fail_line p name val lo_lim hi_lim unit False = Inr line"
    by (simp add: fail_line_def convert3_def assms(3,4,5))
  obtain lg' where lg': "logError line (Log g) = (None, lg')"
    unfolding logError_def using logText_ok [OF assms(2)] by blast
  show ?thesis
    using assms(1) by (simp add: chkLimits_def line lg' bumpError_def)
qed

lemma chkLimits_counter:
  "errorCount (Err (snd (chkLimits p name val lo_lim hi_lim unit Hex g))) = errorCount (Err g)
   \<or> errorCount (Err (snd (chkLimits p name val lo_lim hi_lim unit Hex g))) = errorCount (Err g) + 1"
  by (auto simp: chkLimits_def bumpError_def split: prod.splits option.splits sum.splits)

lemma run_step_counter: "errorCount (Err g) \<le> errorCount (Err (run_step p x g))"
proof (cases x)
  case BumpError
  then show ?thesis by (simp add: bumpError_def)
next
  case GetErrorCount
  then show ?thesis by simp
next
  case (ChkLimits name val lo_lim hi_lim unit Hex)
  then show ?thesis
    using chkLimits_counter [of p name val lo_lim hi_lim unit Hex g] by auto
qed

lemma run_counter: "errorCount (Err g) \<le> errorCount (Err (run p ops g))"
proof (induction ops arbitrary: g)
  case Nil
  then show ?case by simp
next
  case (Cons x ops)
  have "errorCount (Err g) \<le> errorCount (Err (run_step p x g))"
    by (rule run_step_counter)
  also have "\<dots> \<le> errorCount (Err (run p ops (run_step p x g)))"
    by (rule Cons.IH)
  finally show ?case by simp
qed

lemma sim_g0_accepts: "logfile (Log g0) = None \<or> write_error (Log g0) = None"
  by (simp add: g0_def)

text \<open>
  Claim C7. With the display mode left at its default, numbers that \<^verbatim>\<open>%F\<close> and \<^verbatim>\<open>%f\<close>
  convert, and a log that accepts the line, \<^verbatim>\<open>chkLimits(name, value, Min, Max)\<close> returns
  \<^verbatim>\<open>True\<close> and leaves the error counter as it was when the value is inside the limits, and
  returns \<^verbatim>\<open>False\<close> and adds exactly one to the counter when the value is outside them; so
  it is for 3.3 and for 3.9 against 3.0 and 3.6. Over any sequence of the operations of a run
  the counter never goes down.
\<close>

theorem chkLimits_pass_fail_counter:
  "(py_lt lo_lim val \<and> py_lt val hi_lim
      \<and> (logfile (Log g) = None \<or> write_error (Log g) = None)
      \<and> fmtF p val = Inr v \<and> fmtF p lo_lim = Inr lo \<and> fmtF p hi_lim = Inr hi
      \<longrightarrow> fst (chkLimits p name val lo_lim hi_lim unit False g) = Inr True
          \<and> errorCount (Err (snd (chkLimits p name val lo_lim hi_lim unit False g)))
              = errorCount (Err g))
   \<and> ((py_lt val lo_lim \<or> py_lt hi_lim val)
      \<and> (logfile (Log g) = None \<or> write_error (Log g) = None)
      \<and> fmtF p val = Inr v \<and> fmtF p lo_lim = Inr lo \<and> fmtf p hi_lim = Inr hi
      \<longrightarrow> fst (chkLimits p name val lo_lim hi_lim unit False g) = Inr False
          \<and> errorCount (Err (snd (chkLimits p name val lo_lim hi_lim unit False g)))
              = errorCount (Err g) + 1)
   \<and> fst (chkLimits sim_percent ''Vout'' (PyFloat 3.3) (PyFloat 3.0) (PyFloat 3.6) ''V'' False g0)
       = Inr True
   \<and> getErrorCount (Err (snd (chkLimits sim_percent ''Vout'' (PyFloat 3.3) (PyFloat 3.0)
                                  (PyFloat 3.6) ''V'' False g0)))
       = getErrorCount (Err g0)
   \<and> fst (chkLimits sim_percent ''Vout'' (PyFloat 3.9) (PyFloat 3.0) (PyFloat 3.6) ''V'' False g0)
       = Inr False
   \<and> getErrorCount (Err (snd (chkLimits sim_percent ''Vout'' (PyFloat 3.9) (PyFloat 3.0)
                                  (PyFloat 3.6) ''V'' False g0)))
       = getErrorCount (Err g0) + 1
   \<and> getErrorCount (Err g) \<le> getErrorCount (Err (run p ops g))"
proof (intro conjI impI)
  assume h: "py_lt lo_lim val \<and> py_lt val hi_lim
      \<and> (logfile (Log g) = None \<or> write_error (Log g) = None)
      \<and> fmtF p val = Inr v \<and> fmtF p lo_lim = Inr lo \<and> fmtF p hi_lim = Inr hi"
  have parts: "py_lt lo_lim val" "py_lt val hi_lim"
      "logfile (Log g) = None \<or> write_error (Log g) = None"
      "fmtF p val = Inr v" "fmtF p lo_lim = Inr lo" "fmtF p hi_lim = Inr hi"
    using h by simp_all
  have inside: "fst (chkLimits p name val lo_lim hi_lim unit False g) = Inr True
         \<and> Err (snd (chkLimits p name val lo_lim hi_lim unit False g)) = Err g"
    by (rule chkLimits_inside [OF parts])
  show "fst (chkLimits p name val lo_lim hi_lim unit False g) = Inr True"
    using inside by blast
  show "errorCount (Err (snd (chkLimits p name val lo_lim hi_lim unit False g)))
              = errorCount (Err g)"
    using inside by simp
next
  assume h: "(py_lt val lo_lim \<or> py_lt hi_lim val)
      \<and> (logfile (Log g) = None \<or> write_error (Log g) = None)
      \<and> fmtF p val = Inr v \<and> fmtF p lo_lim = Inr lo \<and> fmtf p hi_lim = Inr hi"
  then have out: "\<not> (py_lt lo_lim val \<and> py_lt val hi_lim)"
    using py_lt_asym by blast
  have parts: "logfile (Log g) = None \<or> write_error (Log g) = None"
      "fmtF p val = Inr v" "fmtF p lo_lim = Inr lo" "fmtf p hi_lim = Inr hi"
    using h by simp_all
  have outside: "fst (chkLimits p name val lo_lim hi_lim unit False g) = Inr False
         \<and> errorCount (Err (snd (chkLimits p name val lo_lim hi_lim unit False g)))
             = errorCount (Err g) + 1"
    by (rule chkLimits_outside [OF out parts])
  show "fst (chkLimits p name val lo_lim hi_lim unit False g) = Inr False"
    using outside by blast
  show "errorCount (Err (snd (chkLimits p name val lo_lim hi_lim unit False g)))
              = errorCount (Err g) + 1"
    using outside by blast
next
  have inside: "py_lt (PyFloat 3.0) (PyFloat 3.3)" "py_lt (PyFloat 3.3) (PyFloat 3.6)"
    by simp_all
  have texts: "fmtF sim_percent (PyFloat 3.3) = Inr ''3.300000''"
      "fmtF sim_percent (PyFloat 3.0) = Inr ''3.000000''"
      "fmtF sim_percent (PyFloat 3.6) = Inr ''3.600000''"
    by (simp_all add: sim_percent_def sim_fixed_def)
  note pass = chkLimits_inside [OF inside sim_g0_accepts texts, of "''Vout''" "''V''"]
  show "fst (chkLimits sim_percent ''Vout'' (PyFloat 3.3) (PyFloat 3.0) (PyFloat 3.6) ''V'' False g0)
       = Inr True"
    using pass by blast
  show "getErrorCount (Err (snd (chkLimits sim_percent ''Vout'' (PyFloat 3.3) (PyFloat 3.0)
                                  (PyFloat 3.6) ''V'' False g0)))
       = getErrorCount (Err g0)"
    using pass by (simp add: getErrorCount_def)
  have outside: "\<not> (py_lt (PyFloat 3.0) (PyFloat 3.9) \<and> py_lt (PyFloat 3.9) (PyFloat 3.6))"
    by simp
  have texts': "fmtF sim_percent (PyFloat 3.9) = Inr ''3.900000''"
      "fmtF sim_percent (PyFloat 3.0) = Inr ''3.000000''"
      "fmtf sim_percent (PyFloat 3.6) = Inr ''3.600000''"
    by (simp_all add: sim_percent_def sim_fixed_def)
  note fail = chkLimits_outside [OF outside sim_g0_accepts texts', of "''Vout''" "''V''"]
  show "fst (chkLimits sim_percent ''Vout'' (PyFloat 3.9) (PyFloat 3.0) (PyFloat 3.6) ''V'' False g0)
       = Inr False"
    using fail by blast
  show "getErrorCount (Err (snd (chkLimits sim_percent ''Vout'' (PyFloat 3.9) (PyFloat 3.0)
                                  (PyFloat 3.6) ''V'' False g0)))
       = getErrorCount (Err g0) + 1"
    using fail by (simp add: getErrorCount_def)
next
  show "getErrorCount (Err g) \<le> getErrorCount (Err (run p ops g))"
    unfolding getErrorCount_def by (rule run_counter)
qed

text \<open>A current of 1 A and one of 5 A against the limits 0 A and 2 A, all three ints.\<close>

theorem chkLimits_pass_fail_counter_witness:
  "fst (chkLimits sim_percent ''Iout'' (PyInt 1) (PyInt 0) (PyInt 2) ''A'' False g0) = Inr True
   \<and> errorCount (Err (snd (chkLimits sim_percent ''Iout'' (PyInt 1) (PyInt 0) (PyInt 2) ''A''
                              False g0))) = 0
   \<and> fst (chkLimits sim_percent ''Iout'' (PyInt 5) (PyInt 0) (PyInt 2) ''A'' False g0) = Inr False
   \<and> errorCount (Err (snd (chkLimits sim_percent ''Iout'' (PyInt 5) (PyInt 0) (PyInt 2) ''A''
                              False g0))) = 1"
proof -
  have inside: "py_lt (PyInt 0) (PyInt 1) \<and> py_lt (PyInt 1) (PyInt 2)
      \<and> (logfile (Log g0) = None \<or> write_error (Log g0) = None)
      \<and> fmtF sim_percent (PyInt 1) = Inr ''1.000000''
      \<and> fmtF sim_percent (PyInt 0) = Inr ''0.000000''
      \<and> fmtF sim_percent (PyInt 2) = Inr ''2.000000''"
    by (simp add: sim_percent_def sim_fixed_def g0_def)
  have outside: "(py_lt (PyInt 5) (PyInt 0) \<or> py_lt (PyInt 2) (PyInt 5))
      \<and> (logfile (Log g0) = None \<or> write_error (Log g0) = None)
      \<and> fmtF sim_percent (PyInt 5) = Inr ''5.000000''
      \<and> fmtF sim_percent (PyInt 0) = Inr ''0.000000''
      \<and> fmtf sim_percent (PyInt 2) = Inr ''2.000000''"
    by (simp add: sim_percent_def sim_fixed_def g0_def)
  have start: "errorCount (Err g0) = 0"
    by (simp add: g0_def Errors_init_def)
  show ?thesis
    using chkLimits_pass_fail_counter
        [where lo_lim = "PyInt 0" and val = "PyInt 1" and hi_lim = "PyInt 2" and g = g0
           and p = sim_percent and name = "''Iout''" and unit = "''A''" and ops = "[]"
           and v = "''1.000000''" and lo = "''0.000000''" and hi = "''2.000000''",
         THEN conjunct1, THEN mp, OF inside]
      chkLimits_pass_fail_counter
        [where lo_lim = "PyInt 0" and val = "PyInt 5" and hi_lim = "PyInt 2" and g = g0
           and p = sim_percent and name = "''Iout''" and unit = "''A''" and ops = "[]"
           and v = "''5.000000''" and lo = "''0.000000''" and hi = "''2.000000''",
         THEN conjunct2, THEN conjunct1, THEN mp, OF outside]
      start
    by simp
qed

text \<open>
  Claim C9. The limits are exclusive: a value equal to \<^verbatim>\<open>Min\<close> or equal to \<^verbatim>\<open>Max\<close> (Python's
  \<^verbatim>\<open>==\<close>) fails the check and adds one to the error counter, for numbers that \<^verbatim>\<open>%F\<close> and
  \<^verbatim>\<open>%f\<close> convert and a log that accepts the line.
\<close>

theorem chkLimits_bounds_exclusive:
  "(py_eq val lo_lim \<or> py_eq val hi_lim)
     \<and> (logfile (Log g) = None \<or> write_error (Log g) = None)
     \<and> fmtF p val = Inr v \<and> fmtF p lo_lim = Inr lo \<and> fmtf p hi_lim = Inr hi
     \<longrightarrow> fst (chkLimits p name val lo_lim hi_lim unit False g) = Inr False
         \<and> getErrorCount (Err (snd (chkLimits p name val lo_lim hi_lim unit False g)))
             = getErrorCount (Err g) + 1"
proof
  assume h: "(py_eq val lo_lim \<or> py_eq val hi_lim)
     \<and> (logfile (Log g) = None \<or> write_error (Log g) = None)
     \<and> fmtF p val = Inr v \<and> fmtF p lo_lim = Inr lo \<and> fmtf p hi_lim = Inr hi"
  then have out: "\<not> (py_lt lo_lim val \<and> py_lt val hi_lim)"
    using py_eq_not_lt by blast
  have parts: "logfile (Log g) = None \<or> write_error (Log g) = None"
      "fmtF p val = Inr v" "fmtF p lo_lim = Inr lo" "fmtf p hi_lim = Inr hi"
    using h by simp_all
  have "fst (chkLimits p name val lo_lim hi_lim unit False g) = Inr False
         \<and> errorCount (Err (snd (chkLimits p name val lo_lim hi_lim unit False g)))
             = errorCount (Err g) + 1"
    by (rule chkLimits_outside [OF out parts])
  then show "fst (chkLimits p name val lo_lim hi_lim unit False g) = Inr False
         \<and> getErrorCount (Err (snd (chkLimits p name val lo_lim hi_lim unit False g)))
             = getErrorCount (Err g) + 1"
    unfolding getErrorCount_def .
qed

text \<open>The two limits 3.0 and 3.6 themselves.\<close>

theorem chkLimits_bounds_exclusive_witness:
  "fst (chkLimits sim_percent ''Vout'' (PyFloat 3.0) (PyFloat 3.0) (PyFloat 3.6) ''V'' False g0)
     = Inr False
   \<and> getErrorCount (Err (snd (chkLimits sim_percent ''Vout'' (PyFloat 3.0) (PyFloat 3.0)
                                  (PyFloat 3.6) ''V'' False g0))) = 1
   \<and> fst (chkLimits sim_percent ''Vout'' (PyFloat 3.6) (PyFloat 3.0) (PyFloat 3.6) ''V'' False g0)
     = Inr False
   \<and> getErrorCount (Err (snd (chkLimits sim_percent ''Vout'' (PyFloat 3.6) (PyFloat 3.0)
                                  (PyFloat 3.6) ''V'' False g0))) = 1"
proof -
  have at_min: "(py_eq (PyFloat 3.0) (PyFloat 3.0) \<or> py_eq (PyFloat 3.0) (PyFloat 3.6))
     \<and> (logfile (Log g0) = None \<or> write_error (Log g0) = None)
     \<and> fmtF sim_percent (PyFloat 3.0) = Inr ''3.000000''
     \<and> fmtF sim_percent (PyFloat 3.0) = Inr ''3.000000''
     \<and> fmtf sim_percent (PyFloat 3.6) = Inr ''3.600000''"
    by (simp add: sim_percent_def sim_fixed_def g0_def)
  have at_max: "(py_eq (PyFloat 3.6) (PyFloat 3.0) \<or> py_eq (PyFloat 3.6) (PyFloat 3.6))
     \<and> (logfile (Log g0) = None \<or> write_error (Log g0) = None)
     \<and> fmtF sim_percent (PyFloat 3.6) = Inr ''3.600000''
     \<and> fmtF sim_percent (PyFloat 3.0) = Inr ''3.000000''
     \<and> fmtf sim_percent (PyFloat 3.6) = Inr ''3.600000''"
    by (simp add: sim_percent_def sim_fixed_def g0_def)
  have start: "getErrorCount (Err g0) = 0"
    by (simp add: g0_def Errors_init_def getErrorCount_def)
  show ?thesis
    using chkLimits_bounds_exclusive [THEN mp, OF at_min, of "''Vout''" "''V''"]
      chkLimits_bounds_exclusive [THEN mp, OF at_max, of "''Vout''" "''V''"] start
    by simp
qed

section \<open>Overlapped acquisition: lemmas and claims\<close>

lemma poll_loop_first:
  assumes "ask_result e (length (trace w)) = Inr reply"
    and "py_int (strip reply) = Some count"
  shows "poll_loop failed late e count timeout startTime w =
           Some (Inr True, w\<lparr>trace := trace w @ [Ask '':DATA:POIN?;'']\<rparr>)"
  by (subst poll_loop.simps) (simp add: hask_def assms)

lemma poll_loop_again:
  assumes "ask_result e (length (trace w)) = Inr reply"
    and "py_int (strip reply) = Some measured"
    and "measured \<noteq> count"
    and "\<not> clock e (ticks w) - startTime > timeout"
  shows "poll_loop failed late e count timeout startTime w =
           poll_loop failed late e count timeout startTime
             (w\<lparr>trace := trace w @ [Ask '':DATA:POIN?;''], ticks := Suc (ticks w)\<rparr>)"
  by (subst poll_loop.simps) (simp add: hask_def now_def assms)

lemma poll_loop_reaches:
  assumes "\<forall>j<k. ask_result e (length (trace w) + j) = Inr (r j)
                  \<and> py_int (strip (r j)) = Some (m j) \<and> m j \<noteq> count
                  \<and> \<not> clock e (ticks w + j) - startTime > timeout"
    and "ask_result e (length (trace w) + k) = Inr reply"
    and "py_int (strip reply) = Some count"
  shows "poll_loop failed late e count timeout startTime w =
           Some (Inr True,
                 w\<lparr>trace := trace w @ replicate (Suc k) (Ask '':DATA:POIN?;''),
                    ticks := ticks w + k\<rparr>)"
  using assms
proof (induction k arbitrary: w r m)
  case 0
  then show ?case
    using poll_loop_first [of e w reply count failed late timeout startTime] by simp
next
  case (Suc k)
  define w' where "w' = w\<lparr>trace := trace w @ [Ask '':DATA:POIN?;''], ticks := Suc (ticks w)\<rparr>"
  have head: "ask_result e (length (trace w)) = Inr (r 0)" "py_int (strip (r 0)) = Some (m 0)"
      "m 0 \<noteq> count" "\<not> clock e (ticks w) - startTime > timeout"
    using Suc.prems(1) by force+
  have step: "poll_loop failed late e count timeout startTime w =
      poll_loop failed late e count timeout startTime w'"
    unfolding w'_def by (rule poll_loop_again [OF head])
  have later: "\<forall>j<k. ask_result e (length (trace w') + j) = Inr (r (Suc j))
                  \<and> py_int (strip (r (Suc j))) = Some (m (Suc j)) \<and> m (Suc j) \<noteq> count
                  \<and> \<not> clock e (ticks w' + j) - startTime > timeout"
  proof (intro allI impI)
    fix j assume "j < k"
    then have "Suc j < Suc k" by simp
    then have "ask_result e (length (trace w) + Suc j) = Inr (r (Suc j))
                  \<and> py_int (strip (r (Suc j))) = Some (m (Suc j)) \<and> m (Suc j) \<noteq> count
                  \<and> \<not> clock e (ticks w + Suc j) - startTime > timeout"
      using Suc.prems(1) by blast
    then show "ask_result e (length (trace w') + j) = Inr (r (Suc j))
                  \<and> py_int (strip (r (Suc j))) = Some (m (Suc j)) \<and> m (Suc j) \<noteq> count
                  \<and> \<not> clock e (ticks w' + j) - startTime > timeout"
      by (simp add: w'_def)
  qed
  have last: "ask_result e (length (trace w') + k) = Inr reply"
    using Suc.prems(2) by (simp add: w'_def)
  have "poll_loop failed late e count timeout startTime w' =
           Some (Inr True,
                 w'\<lparr>trace := trace w' @ replicate (Suc k) (Ask '':DATA:POIN?;''),
                    ticks := ticks w' + k\<rparr>)"
    by (rule Suc.IH [OF later last Suc.prems(3)])
  then show ?case
    unfolding step by (simp add: w'_def)
qed

lemma Daq34972_drain_decodes:
  assumes "\<forall>i<n. ask_result e (length (trace w) + i) = Inr (b i)
                  \<and> dlb_payload (b i) = Inr (Some (pl i))
                  \<and> float_of_str e (pl i) = Some (v i)"
  shows "Daq34972_drain e n acc w =
           (Inr (Samples (acc @ map v [0..<n])),
            w\<lparr>trace := trace w @ replicate n (Ask ''R? 1;'')\<rparr>)"
  using assms
proof (induction n arbitrary: w acc b pl v)
  case 0
  then show ?case by simp
next
  case (Suc n)
  define w' where "w' = w\<lparr>trace := trace w @ [Ask ''R? 1;'']\<rparr>"
  have head: "ask_result e (length (trace w)) = Inr (b 0)" "dlb_payload (b 0) = Inr (Some (pl 0))"
      "float_of_str e (pl 0) = Some (v 0)"
    using Suc.prems by force+
  have step: "Daq34972_drain e (Suc n) acc w = Daq34972_drain e n (acc @ [v 0]) w'"
    by (simp add: hask_def head w'_def)
  have later: "\<forall>i<n. ask_result e (length (trace w') + i) = Inr (b (Suc i))
                  \<and> dlb_payload (b (Suc i)) = Inr (Some (pl (Suc i)))
                  \<and> float_of_str e (pl (Suc i)) = Some (v (Suc i))"
  proof (intro allI impI)
    fix i assume "i < n"
    then have "Suc i < Suc n" by simp
    then have "ask_result e (length (trace w) + Suc i) = Inr (b (Suc i))
                  \<and> dlb_payload (b (Suc i)) = Inr (Some (pl (Suc i)))
                  \<and> float_of_str e (pl (Suc i)) = Some (v (Suc i))"
      using Suc.prems by blast
    then show "ask_result e (length (trace w') + i) = Inr (b (Suc i))
                  \<and> dlb_payload (b (Suc i)) = Inr (Some (pl (Suc i)))
                  \<and> float_of_str e (pl (Suc i)) = Some (v (Suc i))"
      by (simp add: w'_def)
  qed
  have "Daq34972_drain e n (acc @ [v 0]) w' =
           (Inr (Samples ((acc @ [v 0]) @ map (\<lambda>i. v (Suc i)) [0..<n])),
            w'\<lparr>trace := trace w' @ replicate n (Ask ''R? 1;'')\<rparr>)"
    by (rule Suc.IH [OF later])
  then show ?case
    unfolding step by (simp add: w'_def map_upt_Suc del: upt_Suc)
qed

lemma Dvm34411_drain_decodes:
  assumes "\<forall>i<n. ask_result e (length (trace w) + i) = Inr (b i)
                  \<and> dlb_payload (b i) = Inr (Some (pl i))"
  shows "Dvm34411_drain e n acc w =
           (Inr (Samples (acc @ map pl [0..<n])),
            w\<lparr>trace := trace w @ replicate n (Ask ''R? 1;'')\<rparr>)"
  using assms
proof (induction n arbitrary: w acc b pl)
  case 0
  then show ?case by simp
next
  case (Suc n)
  define w' where "w' = w\<lparr>trace := trace w @ [Ask ''R? 1;'']\<rparr>"
  have head: "ask_result e (length (trace w)) = Inr (b 0)" "dlb_payload (b 0) = Inr (Some (pl 0))"
    using Suc.prems by force+
  have step: "Dvm34411_drain e (Suc n) acc w = Dvm34411_drain e n (acc @ [pl 0]) w'"
    by (simp add: hask_def head w'_def)
  have later: "\<forall>i<n. ask_result e (length (trace w') + i) = Inr (b (Suc i))
                  \<and> dlb_payload (b (Suc i)) = Inr (Some (pl (Suc i)))"
  proof (intro allI impI)
    fix i assume "i < n"
    then have "Suc i < Suc n" by simp
    then have "ask_result e (length (trace w) + Suc i) = Inr (b (Suc i))
                  \<and> dlb_payload (b (Suc i)) = Inr (Some (pl (Suc i)))"
      using Suc.prems by blast
    then show "ask_result e (length (trace w') + i) = Inr (b (Suc i))
                  \<and> dlb_payload (b (Suc i)) = Inr (Some (pl (Suc i)))"
      by (simp add: w'_def)
  qed
  have "Dvm34411_drain e n (acc @ [pl 0]) w' =
           (Inr (Samples ((acc @ [pl 0]) @ map (\<lambda>i. pl (Suc i)) [0..<n])),
            w'\<lparr>trace := trace w' @ replicate n (Ask ''R? 1;'')\<rparr>)"
    by (rule Suc.IH [OF later])
  then show ?case
    unfolding step by (simp add: w'_def map_upt_Suc del: upt_Suc)
qed

lemma Daq34972_drain_ticks: "ticks (snd (Daq34972_drain e n acc w)) = ticks w"
  by (induction n arbitrary: acc w)
    (auto simp: hask_def print_def split: sum.splits option.splits)

lemma Dvm34411_drain_ticks: "ticks (snd (Dvm34411_drain e n acc w)) = ticks w"
  by (induction n arbitrary: acc w)
    (auto simp: hask_def print_def split: sum.splits option.splits)


text \<open>
  A whole run of \<^verbatim>\<open>Daq34972.waitOverlappedDone\<close>: \<open>k\<close> polls that read another number while the
  deadline has not passed, one poll that reads \<open>count\<close>, then \<open>count\<close> blocks that decode.
\<close>

lemma Daq34972_waitOverlappedDone_complete:
  assumes "\<forall>j<k. ask_result e (length (trace w) + j) = Inr (r j)
                  \<and> py_int (strip (r j)) = Some (m j) \<and> m j \<noteq> count
                  \<and> \<not> clock e (Suc (ticks w) + j) - clock e (ticks w) > timeout"
    and "ask_result e (length (trace w) + k) = Inr reply"
    and "py_int (strip reply) = Some count"
    and "\<forall>i<nat count. ask_result e (length (trace w) + Suc k + i) = Inr (b i)
                  \<and> dlb_payload (b i) = Inr (Some (pl i))
                  \<and> float_of_str e (pl i) = Some (v i)"
  shows "Daq34972_waitOverlappedDone e count timeout w =
           Some (Inr (Samples (map v [0..<nat count])),
                 w\<lparr>trace := trace w @ replicate (Suc k) (Ask '':DATA:POIN?;'')
                                @ replicate (nat count) (Ask ''R? 1;''),
                    ticks := Suc (ticks w) + k\<rparr>)"
proof -
  define w0 where "w0 = w\<lparr>ticks := Suc (ticks w)\<rparr>"
  define w1 where "w1 = w0\<lparr>trace := trace w0 @ replicate (Suc k) (Ask '':DATA:POIN?;''),
                    ticks := ticks w0 + k\<rparr>"
  have polls: "\<forall>j<k. ask_result e (length (trace w0) + j) = Inr (r j)
                  \<and> py_int (strip (r j)) = Some (m j) \<and> m j \<noteq> count
                  \<and> \<not> clock e (ticks w0 + j) - clock e (ticks w) > timeout"
    using assms(1) by (simp add: w0_def)
  have last: "ask_result e (length (trace w0) + k) = Inr reply"
    using assms(2) by (simp add: w0_def)
  have poll: "poll_loop ''Exception in Daq34972.waitOverlappedDone() polling !''
                  ''Daq34972.waitOverlappedDone() timeout !'' e count timeout (clock e (ticks w)) w0
                = Some (Inr True, w1)"
    unfolding w1_def by (rule poll_loop_reaches [OF polls last assms(3)])
  have blocks: "\<forall>i<nat count. ask_result e (length (trace w1) + i) = Inr (b i)
                  \<and> dlb_payload (b i) = Inr (Some (pl i))
                  \<and> float_of_str e (pl i) = Some (v i)"
    using assms(4) by (simp add: w1_def w0_def add.commute add.left_commute)
  have drain: "Daq34972_drain e (nat count) [] w1 =
           (Inr (Samples ([] @ map v [0..<nat count])),
            w1\<lparr>trace := trace w1 @ replicate (nat count) (Ask ''R? 1;'')\<rparr>)"
    by (rule Daq34972_drain_decodes [OF blocks])
  have "Daq34972_waitOverlappedDone e count timeout w = Some (Daq34972_drain e (nat count) [] w1)"
    using poll by (simp add: Daq34972_waitOverlappedDone_def now_def w0_def)
  then show ?thesis
    unfolding drain by (simp add: w1_def w0_def)
qed

text \<open>
  Claim C10. \<^verbatim>\<open>waitOverlappedDone\<close> queries the sample counter before it looks at the
  deadline: when the first counter query answers \<open>count\<close>, then for every timeout (zero and
  negative ones too) and every clock the call goes on to the drain loop and returns what the
  drain loop returns, in both classes; the clock is read once, for the start time, and never
  compared with the timeout. When the drained replies are blocks, \<open>count\<close> queries are made and
  the samples are returned in reply order: by \<^verbatim>\<open>Daq34972\<close> the floats of the payloads, by
  \<^verbatim>\<open>Dvm34411\<close> the payloads as it appends them.
\<close>

theorem waitOverlappedDone_polls_before_deadline:
  assumes "ask_result e (length (trace w)) = Inr reply"
    and "py_int (strip reply) = Some count"
  shows "Daq34972_waitOverlappedDone e count timeout w =
           Some (Daq34972_drain e (nat count) []
                   (w\<lparr>trace := trace w @ [Ask '':DATA:POIN?;''], ticks := Suc (ticks w)\<rparr>))
         \<and> Dvm34411_waitOverlappedDone e count timeout w =
           Some (Dvm34411_drain e (nat count) []
                   (w\<lparr>trace := trace w @ [Ask '':DATA:POIN?;''], ticks := Suc (ticks w)\<rparr>))
         \<and> ticks (snd (Daq34972_drain e (nat count) []
                   (w\<lparr>trace := trace w @ [Ask '':DATA:POIN?;''], ticks := Suc (ticks w)\<rparr>)))
             = Suc (ticks w)
         \<and> ticks (snd (Dvm34411_drain e (nat count) []
                   (w\<lparr>trace := trace w @ [Ask '':DATA:POIN?;''], ticks := Suc (ticks w)\<rparr>)))
             = Suc (ticks w)
         \<and> ((\<forall>i<nat count. ask_result e (Suc (length (trace w)) + i) = Inr (b i)
                  \<and> dlb_payload (b i) = Inr (Some (pl i))
                  \<and> float_of_str e (pl i) = Some (v i))
              \<longrightarrow> Daq34972_waitOverlappedDone e count timeout w =
                    Some (Inr (Samples (map v [0..<nat count])),
                          w\<lparr>trace := trace w @ [Ask '':DATA:POIN?;'']
                                         @ replicate (nat count) (Ask ''R? 1;''),
                             ticks := Suc (ticks w)\<rparr>))
         \<and> ((\<forall>i<nat count. ask_result e (Suc (length (trace w)) + i) = Inr (b i)
                  \<and> dlb_payload (b i) = Inr (Some (pl i)))
              \<longrightarrow> Dvm34411_waitOverlappedDone e count timeout w =
                    Some (Inr (Samples (map pl [0..<nat count])),
                          w\<lparr>trace := trace w @ [Ask '':DATA:POIN?;'']
                                         @ replicate (nat count) (Ask ''R? 1;''),
                             ticks := Suc (ticks w)\<rparr>))"
proof -
  define w1 where "w1 = w\<lparr>ticks := Suc (ticks w)\<rparr>"
  define w2 where "w2 = w\<lparr>trace := trace w @ [Ask '':DATA:POIN?;''], ticks := Suc (ticks w)\<rparr>"
  have first: "ask_result e (length (trace w1)) = Inr reply"
    using assms(1) by (simp add: w1_def)
  have poll: "poll_loop failed late e count timeout (clock e (ticks w)) w1 = Some (Inr True, w2)"
    for failed late
    using poll_loop_first [OF first assms(2), of failed late timeout "clock e (ticks w)"]
    by (simp add: w1_def w2_def)
  have daq: "Daq34972_waitOverlappedDone e count timeout w =
      Some (Daq34972_drain e (nat count) [] w2)"
    by (simp add: Daq34972_waitOverlappedDone_def now_def poll [unfolded w1_def])
  have dvm: "Dvm34411_waitOverlappedDone e count timeout w =
      Some (Dvm34411_drain e (nat count) [] w2)"
    by (simp add: Dvm34411_waitOverlappedDone_def now_def poll [unfolded w1_def])
  have daq_ticks: "ticks (snd (Daq34972_drain e (nat count) [] w2)) = Suc (ticks w)"
    by (simp add: Daq34972_drain_ticks w2_def)
  have dvm_ticks: "ticks (snd (Dvm34411_drain e (nat count) [] w2)) = Suc (ticks w)"
    by (simp add: Dvm34411_drain_ticks w2_def)
  have daq_samples: "Daq34972_waitOverlappedDone e count timeout w =
                    Some (Inr (Samples (map v [0..<nat count])),
                          w\<lparr>trace := trace w @ [Ask '':DATA:POIN?;'']
                                         @ replicate (nat count) (Ask ''R? 1;''),
                             ticks := Suc (ticks w)\<rparr>)"
    if blocks: "\<forall>i<nat count. ask_result e (Suc (length (trace w)) + i) = Inr (b i)
                  \<and> dlb_payload (b i) = Inr (Some (pl i))
                  \<and> float_of_str e (pl i) = Some (v i)"
  proof -
    have "\<forall>i<nat count. ask_result e (length (trace w2) + i) = Inr (b i)
                  \<and> dlb_payload (b i) = Inr (Some (pl i))
                  \<and> float_of_str e (pl i) = Some (v i)"
      using blocks by (simp add: w2_def)
    then have "Daq34972_drain e (nat count) [] w2 =
           (Inr (Samples ([] @ map v [0..<nat count])),
            w2\<lparr>trace := trace w2 @ replicate (nat count) (Ask ''R? 1;'')\<rparr>)"
      by (rule Daq34972_drain_decodes)
    then show ?thesis
      unfolding daq by (simp add: w2_def)
  qed
  have dvm_samples: "Dvm34411_waitOverlappedDone e count timeout w =
                    Some (Inr (Samples (map pl [0..<nat count])),
                          w\<lparr>trace := trace w @ [Ask '':DATA:POIN?;'']
                                         @ replicate (nat count) (Ask ''R? 1;''),
                             ticks := Suc (ticks w)\<rparr>)"
    if blocks: "\<forall>i<nat count. ask_result e (Suc (length (trace w)) + i) = Inr (b i)
                  \<and> dlb_payload (b i) = Inr (Some (pl i))"
  proof -
    have "\<forall>i<nat count. ask_result e (length (trace w2) + i) = Inr (b i)
                  \<and> dlb_payload (b i) = Inr (Some (pl i))"
      using blocks by (simp add: w2_def)
    then have "Dvm34411_drain e (nat count) [] w2 =
           (Inr (Samples ([] @ map pl [0..<nat count])),
            w2\<lparr>trace := trace w2 @ replicate (nat count) (Ask ''R? 1;'')\<rparr>)"
      by (rule Dvm34411_drain_decodes)
    then show ?thesis
      unfolding dvm by (simp add: w2_def)
  qed
  show ?thesis
    using daq dvm daq_ticks dvm_ticks daq_samples dvm_samples unfolding w2_def by blast
qed

text \<open>A timeout of minus one second, the counter at 2 on the first query, two blocks.\<close>

theorem waitOverlappedDone_polls_before_deadline_witness:
  "Daq34972_waitOverlappedDone (sim_after 0) 2 (- 1) w0 =
     Some (Inr (Samples [1234 / 1000, 1234 / 1000]),
           w0\<lparr>trace := [Ask '':DATA:POIN?;'', Ask ''R? 1;'', Ask ''R? 1;''], ticks := 1\<rparr>)
   \<and> Dvm34411_waitOverlappedDone (sim_after 0) 2 (- 1) w0 =
     Some (Inr (Samples [''+1.234'', ''+1.234'']),
           w0\<lparr>trace := [Ask '':DATA:POIN?;'', Ask ''R? 1;'', Ask ''R? 1;''], ticks := 1\<rparr>)"
proof -
  have first: "ask_result (sim_after 0) (length (trace w0)) = Inr ''2''"
    by (simp add: sim_after_def w0_def)
  have counted: "py_int (strip ''2'') = Some 2"
    by code_simp
  have block: "dlb_payload (''#15+1.234'' @ [CHR 0x0A]) = Inr (Some ''+1.234'')"
    by code_simp
  have blocks: "\<forall>i<nat 2. ask_result (sim_after 0) (Suc (length (trace w0)) + i)
                      = Inr (''#15+1.234'' @ [CHR 0x0A])
                  \<and> dlb_payload (''#15+1.234'' @ [CHR 0x0A]) = Inr (Some ''+1.234'')
                  \<and> float_of_str (sim_after 0) ''+1.234'' = Some (1234 / 1000)"
    using block by (simp add: sim_after_def)
  have texts: "\<forall>i<nat 2. ask_result (sim_after 0) (Suc (length (trace w0)) + i)
                      = Inr (''#15+1.234'' @ [CHR 0x0A])
                  \<and> dlb_payload (''#15+1.234'' @ [CHR 0x0A]) = Inr (Some ''+1.234'')"
    using blocks by blast
  have two: "[0..<2] = [0, Suc 0]" "replicate 2 x = [x, x]" for x :: io
    by (simp_all add: numeral_2_eq_2)
  note run = waitOverlappedDone_polls_before_deadline [OF first counted, where timeout = "- 1"
       and b = "\<lambda>i. ''#15+1.234'' @ [CHR 0x0A]" and pl = "\<lambda>i. ''+1.234''"
       and v = "\<lambda>i. 1234 / 1000"]
  have daq: "Daq34972_waitOverlappedDone (sim_after 0) 2 (- 1) w0 =
     Some (Inr (Samples [1234 / 1000, 1234 / 1000]),
           w0\<lparr>trace := [Ask '':DATA:POIN?;'', Ask ''R? 1;'', Ask ''R? 1;''], ticks := 1\<rparr>)"
    using run [THEN conjunct2, THEN conjunct2, THEN conjunct2, THEN conjunct2, THEN conjunct1,
        THEN mp, OF blocks]
    by (simp add: w0_def two)
  have dvm: "Dvm34411_waitOverlappedDone (sim_after 0) 2 (- 1) w0 =
     Some (Inr (Samples [''+1.234'', ''+1.234'']),
           w0\<lparr>trace := [Ask '':DATA:POIN?;'', Ask ''R? 1;'', Ask ''R? 1;''], ticks := 1\<rparr>)"
    using run [THEN conjunct2, THEN conjunct2, THEN conjunct2, THEN conjunct2, THEN conjunct2,
        THEN mp, OF texts]
    by (simp add: w0_def two)
  show ?thesis
    using daq dvm by (rule conjI)
qed

lemma Daq34972_waitOverlappedDone_sim:
  "Daq34972_waitOverlappedDone sim 2 5 w0 =
     Some (Inr (Samples [1234 / 1000, 1234 / 1000]),
           w0\<lparr>trace := [Ask '':DATA:POIN?;'', Ask '':DATA:POIN?;'', Ask '':DATA:POIN?;'',
                         Ask ''R? 1;'', Ask ''R? 1;''],
              ticks := 3\<rparr>)"
  by code_simp

text \<open>
  Claim C4. The claim asks for \<open>count\<close> decoded floating-point readings from every successful
  acquisition. \<^verbatim>\<open>Daq34972.waitOverlappedDone\<close> returns them (the run above, and the lemma
  on a whole run before it). \<^verbatim>\<open>Dvm34411.waitOverlappedDone\<close> does not: line 244 appends
  \<^verbatim>\<open>reading.strip()\<close> without the \<^verbatim>\<open>float\<close> call, so on the same successful run (the counter
  reads 3, 3, then 2; two blocks follow) it returns the two payload texts, although its
  docstring promises a list of float and the sibling class converts.
\<close>

theorem Dvm34411_waitOverlappedDone_returns_text:
  "Dvm34411_waitOverlappedDone sim 2 5 w0 =
     Some (Inr (Samples [''+1.234'', ''+1.234'']),
           w0\<lparr>trace := [Ask '':DATA:POIN?;'', Ask '':DATA:POIN?;'', Ask '':DATA:POIN?;'',
                         Ask ''R? 1;'', Ask ''R? 1;''],
              ticks := 3\<rparr>)"
  by code_simp

end
